theory Spec2Isabelle
  imports Complex_Main
begin

section \<open>Numbers, randomness and vectors\<close>

text \<open>
  The library under study is \<^verbatim>\<open>core-files/human-figure/particle-being-library.js\<close>, the class
  \<^verbatim>\<open>ParticleBeingSystem\<close>.  JavaScript numbers are modelled by \<^typ>\<open>real\<close>: rounding of
  IEEE doubles is not represented, and where JavaScript would produce \<^verbatim>\<open>NaN\<close> or
  \<^verbatim>\<open>Infinity\<close> from a division by zero the model has \<open>0\<close>; the three places where the
  source divides by a number that can be zero say so (the interpolation parameter of limb
  points, the stride of the vertex walk, the dissolve progress).  Counts are \<^typ>\<open>int\<close>.

  \<^verbatim>\<open>Math.random()\<close> is an external source of numbers: an infinite sequence \<open>g\<close>, of
  which every call takes the head.  Its contract \<open>0 \<le> r < 1\<close> is the predicate
  \<open>unit_rng\<close>, assumed only where a result depends on it.
\<close>

type_synonym rng = "nat \<Rightarrow> real"

definition Math_random :: "rng \<Rightarrow> real \<times> rng" where
  "Math_random g = (g 0, \<lambda>n. g (Suc n))"

definition unit_rng :: "rng \<Rightarrow> bool" where
  "unit_rng g = (\<forall>n. 0 \<le> g n \<and> g n < 1)"

text \<open>
  \<^verbatim>\<open>THREE.Vector3\<close> belongs to the three.js library, which the repository uses and does
  not contain.  The methods below are the ones the class calls, with the arithmetic
  three.js documents for them; \<^verbatim>\<open>normalize\<close> divides by \<^verbatim>\<open>length() || 1\<close>, so the zero
  vector stays the zero vector.  \<^verbatim>\<open>clone\<close> and \<^verbatim>\<open>copy\<close> are the identity on values.
\<close>

datatype vec3 = Vector3 (vx: real) (vy: real) (vz: real)

definition add_v :: "vec3 \<Rightarrow> vec3 \<Rightarrow> vec3" where
  "add_v a b = Vector3 (vx a + vx b) (vy a + vy b) (vz a + vz b)"

definition sub_v :: "vec3 \<Rightarrow> vec3 \<Rightarrow> vec3" where
  "sub_v a b = Vector3 (vx a - vx b) (vy a - vy b) (vz a - vz b)"

definition multiplyScalar :: "vec3 \<Rightarrow> real \<Rightarrow> vec3" where
  "multiplyScalar a s = Vector3 (vx a * s) (vy a * s) (vz a * s)"

definition length_v :: "vec3 \<Rightarrow> real" where
  "length_v a = sqrt (vx a * vx a + vy a * vy a + vz a * vz a)"

definition normalize_v :: "vec3 \<Rightarrow> vec3" where
  "normalize_v a = multiplyScalar a (1 / (if length_v a = 0 then 1 else length_v a))"

definition lerpVectors :: "vec3 \<Rightarrow> vec3 \<Rightarrow> real \<Rightarrow> vec3" where
  "lerpVectors v1 v2 alpha =
     Vector3 (vx v1 + (vx v2 - vx v1) * alpha)
             (vy v1 + (vy v2 - vy v1) * alpha)
             (vz v1 + (vz v2 - vz v1) * alpha)"

definition distanceTo :: "vec3 \<Rightarrow> vec3 \<Rightarrow> real" where
  "distanceTo a b = length_v (sub_v a b)"

section \<open>Options\<close>

text \<open>
  The option object of the constructor.  \<^verbatim>\<open>stateTimings\<close> and \<^verbatim>\<open>attractionForces\<close> are
  objects indexed by the state's name; a name they do not have reads \<^verbatim>\<open>undefined\<close>
  (\<open>None\<close>).
\<close>

record colorRange =
  c_h :: real
  c_s :: real
  c_lMin :: real
  c_lMax :: real

record stateTimings =
  t_forming :: real
  t_stable :: real
  t_dissolving :: real
  t_scattered :: real

record attractionForces =
  f_forming :: real
  f_stable :: real
  f_dissolving :: real
  f_scattered :: real

record options =
  particleCount :: int
  particleSize :: real
  ambientParticleCount :: int
  speedMultiplier :: real
  colorRange :: colorRange
  states :: "string list"
  stateTimings :: stateTimings
  attractionForces :: attractionForces
  turbulenceStrength :: real
  oscillationSpeed :: real

definition default_states :: "string list" where
  "default_states = [''forming'', ''stable'', ''dissolving'', ''scattered'']"

definition default_options :: options where
  "default_options =
     \<lparr> particleCount = 200,
       particleSize = 8 / 100,
       ambientParticleCount = 100,
       speedMultiplier = 1,
       colorRange = \<lparr> c_h = 0, c_s = 0, c_lMin = 1 / 10, c_lMax = 4 / 10 \<rparr>,
       states = default_states,
       stateTimings = \<lparr> t_forming = 4, t_stable = 3, t_dissolving = 3, t_scattered = 2 \<rparr>,
       attractionForces =
         \<lparr> f_forming = 4 / 100, f_stable = 24 / 1000, f_dissolving = 8 / 1000,
           f_scattered = 4 / 1000 \<rparr>,
       turbulenceStrength = 8 / 1000,
       oscillationSpeed = 16 / 1000 \<rparr>"

text \<open>
  An option object given by the caller has any subset of the keys; the spread
  \<^verbatim>\<open>{ ...defaults, ...given }\<close> takes every key the caller gave.  The key \<^verbatim>\<open>states\<close> is
  not among the options the library documents, but the spread lets it through.
\<close>

record custom_options =
  o_particleCount :: "int option"
  o_particleSize :: "real option"
  o_ambientParticleCount :: "int option"
  o_speedMultiplier :: "real option"
  o_colorRange :: "colorRange option"
  o_states :: "string list option"
  o_stateTimings :: "stateTimings option"
  o_attractionForces :: "attractionForces option"
  o_turbulenceStrength :: "real option"
  o_oscillationSpeed :: "real option"

definition no_options :: custom_options where
  "no_options =
     \<lparr> o_particleCount = None, o_particleSize = None, o_ambientParticleCount = None,
       o_speedMultiplier = None, o_colorRange = None, o_states = None,
       o_stateTimings = None, o_attractionForces = None, o_turbulenceStrength = None,
       o_oscillationSpeed = None \<rparr>"

definition or_else :: "'a option \<Rightarrow> 'a \<Rightarrow> 'a" where
  "or_else given dflt = (case given of Some v \<Rightarrow> v | None \<Rightarrow> dflt)"

definition spread :: "options \<Rightarrow> custom_options \<Rightarrow> options" where
  "spread base given =
     \<lparr> particleCount = or_else (o_particleCount given) (particleCount base),
       particleSize = or_else (o_particleSize given) (particleSize base),
       ambientParticleCount = or_else (o_ambientParticleCount given) (ambientParticleCount base),
       speedMultiplier = or_else (o_speedMultiplier given) (speedMultiplier base),
       colorRange = or_else (o_colorRange given) (colorRange base),
       states = or_else (o_states given) (states base),
       stateTimings = or_else (o_stateTimings given) (stateTimings base),
       attractionForces = or_else (o_attractionForces given) (attractionForces base),
       turbulenceStrength = or_else (o_turbulenceStrength given) (turbulenceStrength base),
       oscillationSpeed = or_else (o_oscillationSpeed given) (oscillationSpeed base) \<rparr>"

definition timing_of :: "stateTimings \<Rightarrow> string option \<Rightarrow> real option" where
  "timing_of t s =
     (if s = Some ''forming'' then Some (t_forming t)
      else if s = Some ''stable'' then Some (t_stable t)
      else if s = Some ''dissolving'' then Some (t_dissolving t)
      else if s = Some ''scattered'' then Some (t_scattered t)
      else None)"

definition force_of :: "attractionForces \<Rightarrow> string option \<Rightarrow> real option" where
  "force_of f s =
     (if s = Some ''forming'' then Some (f_forming f)
      else if s = Some ''stable'' then Some (f_stable f)
      else if s = Some ''dissolving'' then Some (f_dissolving f)
      else if s = Some ''scattered'' then Some (f_scattered f)
      else None)"

section \<open>The point sampler\<close>

text \<open>
  A source mesh, as far as \<^verbatim>\<open>extractPointsFromMesh\<close> reads it: its \<^verbatim>\<open>geometry\<close> may be
  missing; a geometry either carries the flag \<^verbatim>\<open>isBufferGeometry\<close>, and then
  \<^verbatim>\<open>attributes.position\<close> is read (a vertex buffer, or \<^verbatim>\<open>undefined\<close> as in a fresh
  \<^verbatim>\<open>new THREE.BufferGeometry()\<close>), or it does not.  Reading \<^verbatim>\<open>count\<close> of an undefined
  attribute, and reading \<^verbatim>\<open>x\<close> of an undefined array element, raise a TypeError.
\<close>

datatype geometry = BufferGeometry "vec3 list option" | OtherGeometry

record mesh =
  m_geometry :: "geometry option"
  m_visible :: bool

datatype error = TypeError

text \<open>
  \<^verbatim>\<open>for (let i = i0; i < bound; i++) body\<close>, over a state.  The bound is a number, not
  always whole (\<^verbatim>\<open>armCount / 2\<close>).
\<close>

function for_loop :: "nat \<Rightarrow> real \<Rightarrow> (nat \<Rightarrow> 's \<Rightarrow> 's) \<Rightarrow> 's \<Rightarrow> 's" where
  "for_loop i bound body s =
     (if real i < bound then for_loop (Suc i) bound body (body i s) else s)"
  by pat_completeness auto
termination
  by (relation "measure (\<lambda>(i, bound, body, s). nat \<lceil>bound\<rceil> - i)") (auto, linarith)

record body_config =
  bc_height :: real
  bc_width :: real
  bc_headSize :: real

definition adult :: body_config where
  "adult = \<lparr> bc_height = 1, bc_width = 1, bc_headSize = 1 \<rparr>"

definition variations :: "string \<Rightarrow> body_config option" where
  "variations bodyType =
     (if bodyType = ''child'' then Some \<lparr> bc_height = 6 / 10, bc_width = 7 / 10, bc_headSize = 12 / 10 \<rparr>
      else if bodyType = ''teen'' then Some \<lparr> bc_height = 85 / 100, bc_width = 85 / 100, bc_headSize = 1 \<rparr>
      else if bodyType = ''adult'' then Some adult
      else if bodyType = ''elderly'' then Some \<lparr> bc_height = 95 / 100, bc_width = 1, bc_headSize = 1 \<rparr>
      else if bodyType = ''athletic'' then Some \<lparr> bc_height = 105 / 100, bc_width = 11 / 10, bc_headSize = 95 / 100 \<rparr>
      else if bodyType = ''pregnant'' then Some \<lparr> bc_height = 1, bc_width = 13 / 10, bc_headSize = 1 \<rparr>
      else None)"

text \<open>The bodies of the five loops; each pushes one point and takes its random numbers.\<close>

definition head_point :: "body_config \<Rightarrow> nat \<Rightarrow> vec3 list \<times> rng \<Rightarrow> vec3 list \<times> rng" where
  "head_point config i s =
     (let (points, g) = s;
          (r1, g1) = Math_random g;
          theta = r1 * pi * 2;
          (r2, g2) = Math_random g1;
          phi = r2 * pi;
          radius = (7 / 10) * bc_headSize config
      in (points @ [Vector3 (radius * sin phi * cos theta * bc_width config)
                            ((35 / 10 + radius * cos phi) * bc_height config)
                            (radius * sin phi * sin theta)], g2))"

definition torso_point :: "body_config \<Rightarrow> nat \<Rightarrow> vec3 list \<times> rng \<Rightarrow> vec3 list \<times> rng" where
  "torso_point config i s =
     (let (points, g) = s;
          (r1, g1) = Math_random g;
          y = 1 + r1 * 2;
          radius = (4 / 10 + (2 - y) * (2 / 10)) * bc_width config;
          (r2, g2) = Math_random g1;
          angle = r2 * pi * 2
      in (points @ [Vector3 (radius * cos angle) (y * bc_height config) (radius * sin angle)], g2))"

definition arm_point :: "body_config \<Rightarrow> int \<Rightarrow> real \<Rightarrow> nat \<Rightarrow> vec3 list \<times> rng \<Rightarrow> vec3 list \<times> rng" where
  "arm_point config armCount side i s =
     (let (points, g) = s;
          t = real i / (real_of_int armCount / 2 - 1);
          armLength = (25 / 10) * bc_height config;
          x = side * (8 / 10 + t * armLength * cos (3 / 10)) * bc_width config;
          y = (25 / 10 - t * armLength * sin (3 / 10)) * bc_height config;
          (r1, g1) = Math_random g;
          z = (r1 - 1 / 2) * (3 / 10)
      in (points @ [Vector3 x y z], g1))"

definition leg_point :: "body_config \<Rightarrow> int \<Rightarrow> real \<Rightarrow> nat \<Rightarrow> vec3 list \<times> rng \<Rightarrow> vec3 list \<times> rng" where
  "leg_point config legCount side i s =
     (let (points, g) = s;
          t = real i / (real_of_int legCount / 2 - 1);
          legLength = (28 / 10) * bc_height config;
          (r1, g1) = Math_random g;
          x = (side + (r1 - 1 / 2) * (2 / 10)) * bc_width config;
          y = (1 - t * legLength) * bc_height config;
          (r2, g2) = Math_random g1;
          z = (r2 - 1 / 2) * (3 / 10)
      in (points @ [Vector3 x y z], g2))"

text \<open>
  \<^verbatim>\<open>generateHumanSilhouettePoints(count, bodyType = 'adult')\<close>.  The leg count is what
  is left of \<open>count\<close> after head, torso and arms; each limb loop runs while
  \<^verbatim>\<open>i < n / 2\<close>, which is one turn more than half of an odd \<open>n\<close>.  In \<open>arm_point\<close> and
  \<open>leg_point\<close> the parameter \<open>t\<close> is \<^verbatim>\<open>0/0\<close> when the limb count is 2 (\<^verbatim>\<open>NaN\<close> in
  JavaScript, \<open>0\<close> here); the point is pushed all the same.  The three floors are of the
  exact products; the double product \<^verbatim>\<open>count * 0.35\<close> can fall just under a whole number
  that the exact product reaches (count 180), and the region counts then differ by one.
\<close>

definition generateHumanSilhouettePoints :: "int \<Rightarrow> string \<Rightarrow> rng \<Rightarrow> vec3 list \<times> rng" where
  "generateHumanSilhouettePoints count bodyType g =
     (let config = or_else (variations bodyType) adult;
          headCount = \<lfloor>real_of_int count * (15 / 100)\<rfloor>;
          s1 = for_loop 0 (real_of_int headCount) (head_point config) ([], g);
          torsoCount = \<lfloor>real_of_int count * (35 / 100)\<rfloor>;
          s2 = for_loop 0 (real_of_int torsoCount) (torso_point config) s1;
          armCount = \<lfloor>real_of_int count * (25 / 100)\<rfloor>;
          s3 = for_loop 0 2
                 (\<lambda>arm. for_loop 0 (real_of_int armCount / 2)
                           (arm_point config armCount (if arm = 0 then - 1 else 1))) s2;
          legCount = count - int (length (fst s3));
          s4 = for_loop 0 2
                 (\<lambda>leg. for_loop 0 (real_of_int legCount / 2)
                           (leg_point config legCount (if leg = 0 then - (3 / 10) else 3 / 10))) s3
      in s4)"

text \<open>
  The stride of the vertex walk, \<^verbatim>\<open>Math.max(1, Math.floor(positions.count / targetCount))\<close>.
  For \<open>targetCount \<le> 0\<close> JavaScript has \<^verbatim>\<open>Infinity\<close>, \<^verbatim>\<open>NaN\<close> or 1 here; the walk then
  stops before its first turn (\<^verbatim>\<open>points.length < targetCount\<close> is false), so the value
  is never used.
\<close>

definition stride_step :: "vec3 list \<Rightarrow> int \<Rightarrow> nat" where
  "stride_step positions targetCount =
     max 1 (nat \<lfloor>real (length positions) / real_of_int targetCount\<rfloor>)"

function stride_loop :: "vec3 list \<Rightarrow> int \<Rightarrow> nat \<Rightarrow> vec3 list \<Rightarrow> vec3 list" where
  "stride_loop positions targetCount i points =
     (if i < length positions \<and> int (length points) < targetCount
      then stride_loop positions targetCount (i + stride_step positions targetCount)
             (points @ [positions ! i])
      else points)"
  by pat_completeness auto
termination
  by (relation "measure (\<lambda>(positions, targetCount, i, points). length positions - i)")
     (auto simp: stride_step_def)

text \<open>
  The filling loop: while there are fewer points than asked for (and at least one),
  push a point between two of them, drawn at random.  An index outside the array
  reads \<^verbatim>\<open>undefined\<close>, on which \<^verbatim>\<open>lerpVectors\<close> raises.
\<close>

function fill_loop :: "int \<Rightarrow> vec3 list \<Rightarrow> rng \<Rightarrow> error + vec3 list \<times> rng" where
  "fill_loop targetCount points g =
     (if int (length points) < targetCount \<and> length points > 0
      then (let idx1 = \<lfloor>g 0 * real (length points)\<rfloor>;
                idx2 = \<lfloor>g 1 * real (length points)\<rfloor>;
                alpha = g 2
            in if 0 \<le> idx1 \<and> idx1 < int (length points) \<and> 0 \<le> idx2 \<and> idx2 < int (length points)
               then fill_loop targetCount
                      (points @ [lerpVectors (points ! nat idx1) (points ! nat idx2) alpha])
                      (\<lambda>n. g (n + 3))
               else Inl TypeError)
      else Inr (points, g))"
  by pat_completeness auto
termination
  by (relation "measure (\<lambda>(targetCount, points, g). nat (targetCount - int (length points)))") auto

definition extractPointsFromMesh :: "mesh option \<Rightarrow> int \<Rightarrow> rng \<Rightarrow> error + vec3 list \<times> rng" where
  "extractPointsFromMesh m targetCount g =
     (case m of
        None \<Rightarrow> Inr (generateHumanSilhouettePoints targetCount ''adult'' g)
      | Some msh \<Rightarrow>
          (case m_geometry msh of
             None \<Rightarrow> Inr (generateHumanSilhouettePoints targetCount ''adult'' g)
           | Some geo \<Rightarrow>
               (case (case geo of
                        OtherGeometry \<Rightarrow> Inr []
                      | BufferGeometry None \<Rightarrow> Inl TypeError
                      | BufferGeometry (Some positions) \<Rightarrow>
                          Inr (stride_loop positions targetCount 0 [])) of
                  Inl e \<Rightarrow> Inl e
                | Inr points \<Rightarrow>
                    (case fill_loop targetCount points g of
                       Inl e \<Rightarrow> Inl e
                     | Inr (points', g') \<Rightarrow>
                         if length points' > 0 then Inr (points', g')
                         else Inr (generateHumanSilhouettePoints targetCount ''adult'' g')))))"

section \<open>Particles, beings and the engine\<close>

text \<open>
  A particle is a \<^verbatim>\<open>THREE.Mesh\<close> with a material and a \<^verbatim>\<open>userData\<close> object.  The fields
  are the ones the class reads or writes: the mesh position, the material's opacity and
  colour (hue, saturation, lightness), the sphere's radius, and the user data.
  \<^verbatim>\<open>beingIndex\<close> and \<^verbatim>\<open>particleIndex\<close> are written by \<^verbatim>\<open>convertToParticleBeing\<close> right
  after \<^verbatim>\<open>createParticle\<close> returns; until then they hold 0 here.
\<close>

record particle =
  p_position :: vec3
  p_opacity :: real
  p_color :: "real \<times> real \<times> real"
  p_size :: real
  targetPosition :: vec3
  scatteredPosition :: vec3
  p_velocity :: vec3
  originalOpacity :: real
  oscillationPhase :: real
  beingIndex :: nat
  particleIndex :: nat

record ambient =
  a_id :: nat
  a_position :: vec3
  a_opacity :: real
  a_velocity :: vec3
  a_drift :: vec3

text \<open>
  Source meshes are objects of the caller, held by reference; the heap maps a reference
  to the mesh.  The scene is the list of its children, each named by a handle: a being's
  particle by the two indices it carries, an ambient particle by its place in the
  engine's array (\<open>a_id\<close>, which exists only in the model).
\<close>

type_synonym mesh_ref = nat

type_synonym heap = "mesh_ref \<Rightarrow> mesh"

datatype drawable = BeingParticle nat nat | AmbientParticle nat

definition scene_remove :: "drawable \<Rightarrow> drawable list \<Rightarrow> drawable list" where
  "scene_remove d sc = removeAll d sc"

definition scene_add :: "drawable \<Rightarrow> drawable list \<Rightarrow> drawable list" where
  "scene_add d sc = scene_remove d sc @ [d]"

definition handle :: "particle \<Rightarrow> drawable" where
  "handle p = BeingParticle (beingIndex p) (particleIndex p)"

record being_data =
  b_index :: nat
  transformationPhase :: real
  transformationSpeed :: real
  b_state :: "string option"
  stateTimer :: real
  basePosition :: vec3
  originalMesh :: "mesh_ref option"
  b_options :: options

record being =
  particles :: "particle list"
  userData :: being_data

record engine =
  e_scene :: "drawable list"
  e_beings :: "being list"
  e_ambientParticles :: "ambient list"
  e_time :: real
  e_options :: options

definition new_system :: "drawable list \<Rightarrow> custom_options \<Rightarrow> engine" where
  "new_system scene given =
     \<lparr> e_scene = scene, e_beings = [], e_ambientParticles = [], e_time = 0,
       e_options = spread default_options given \<rparr>"

definition createParticle :: "vec3 \<Rightarrow> vec3 \<Rightarrow> options \<Rightarrow> rng \<Rightarrow> particle \<times> rng" where
  "createParticle targetPoint basePos opts g =
     (let (r1, g1) = Math_random g;
          lightness = c_lMin (colorRange opts) + r1 * (c_lMax (colorRange opts) - c_lMin (colorRange opts));
          (r2, g2) = Math_random g1;
          opacity = 7 / 10 + r2 * (3 / 10);
          (r3, g3) = Math_random g2;
          (r4, g4) = Math_random g3;
          (r5, g5) = Math_random g4;
          scatteredPos = Vector3 (vx basePos + (r3 - 1 / 2) * 20) (r4 * 15) (vz basePos + (r5 - 1 / 2) * 20);
          targetPos = Vector3 (vx basePos + vx targetPoint) (vy basePos + vy targetPoint + 2)
                        (vz basePos + vz targetPoint);
          (r6, g6) = Math_random g5
      in (\<lparr> p_position = scatteredPos,
            p_opacity = opacity,
            p_color = (c_h (colorRange opts), c_s (colorRange opts), lightness),
            p_size = particleSize opts,
            targetPosition = targetPos,
            scatteredPosition = scatteredPos,
            p_velocity = Vector3 0 0 0,
            originalOpacity = opacity,
            oscillationPhase = r6 * pi * 2,
            beingIndex = 0,
            particleIndex = 0 \<rparr>, g6))"

text \<open>The \<^verbatim>\<open>points.forEach((point, i) => ...)\<close> of \<^verbatim>\<open>convertToParticleBeing\<close>.\<close>

fun create_particles ::
  "vec3 list \<Rightarrow> nat \<Rightarrow> vec3 \<Rightarrow> options \<Rightarrow> nat \<Rightarrow> drawable list \<Rightarrow> rng
     \<Rightarrow> particle list \<times> drawable list \<times> rng" where
  "create_particles [] i basePos opts bi sc g = ([], sc, g)"
| "create_particles (point # points) i basePos opts bi sc g =
     (let (p, g1) = createParticle point basePos opts g;
          p' = p\<lparr> beingIndex := bi, particleIndex := i \<rparr>;
          sc1 = scene_add (handle p') sc;
          (ps, sc2, g2) = create_particles points (Suc i) basePos opts bi sc1 g1
      in (p' # ps, sc2, g2))"

definition convertToParticleBeing ::
  "engine \<Rightarrow> heap \<Rightarrow> mesh_ref option \<Rightarrow> vec3 \<Rightarrow> custom_options \<Rightarrow> rng
     \<Rightarrow> error + being \<times> engine \<times> heap \<times> rng" where
  "convertToParticleBeing e h msh pos customOptions g =
     (let beingOptions = spread (e_options e) customOptions;
          (r1, g1) = Math_random g;
          (r2, g2) = Math_random g1;
          ud = \<lparr> b_index = length (e_beings e),
                 transformationPhase = r1 * pi * 2,
                 transformationSpeed = (3 / 10 + r2 * (2 / 10)) * speedMultiplier beingOptions,
                 b_state = Some ''forming'',
                 stateTimer = 0,
                 basePosition = pos,
                 originalMesh = msh,
                 b_options = beingOptions \<rparr>
      in case extractPointsFromMesh (map_option h msh) (particleCount beingOptions) g2 of
           Inl err \<Rightarrow> Inl err
         | Inr (points, g3) \<Rightarrow>
             (let (ps, sc, g4) =
                    create_particles points 0 pos beingOptions (length (e_beings e)) (e_scene e) g3;
                  h' = (case msh of None \<Rightarrow> h | Some r \<Rightarrow> h(r := (h r)\<lparr> m_visible := False \<rparr>));
                  b = \<lparr> particles = ps, userData = ud \<rparr>
              in Inr (b, e\<lparr> e_scene := sc, e_beings := e_beings e @ [b] \<rparr>, h', g4)))"

text \<open>
  \<^verbatim>\<open>createAmbientParticles(count = null)\<close>: \<^verbatim>\<open>count || this.options.ambientParticleCount\<close>
  takes the default for a missing count and for 0.
\<close>

definition ambient_particle :: "nat \<Rightarrow> engine \<times> rng \<Rightarrow> engine \<times> rng" where
  "ambient_particle i s =
     (let (e, g) = s;
          a = \<lparr> a_id = length (e_ambientParticles e),
                a_position = Vector3 ((g 1 - 1 / 2) * 60) (g 2 * 20) ((g 3 - 1 / 2) * 60),
                a_opacity = 1 / 10 + g 0 * (2 / 10),
                a_velocity = Vector3 ((g 4 - 1 / 2) * (8 / 100)) ((g 5 - 1 / 2) * (4 / 100))
                               ((g 6 - 1 / 2) * (8 / 100)),
                a_drift = Vector3 (sin (g 7 * pi * 2) * (8 / 1000)) (cos (g 8 * pi * 2) * (4 / 1000))
                            (sin (g 9 * pi * 2) * (8 / 1000)) \<rparr>
      in (e\<lparr> e_scene := scene_add (AmbientParticle (a_id a)) (e_scene e),
             e_ambientParticles := e_ambientParticles e @ [a] \<rparr>,
          \<lambda>n. g (n + 10)))"

definition createAmbientParticles :: "engine \<Rightarrow> int option \<Rightarrow> rng \<Rightarrow> engine \<times> rng" where
  "createAmbientParticles e count g =
     (let particleCount =
            (case count of
               None \<Rightarrow> ambientParticleCount (e_options e)
             | Some c \<Rightarrow> if c = 0 then ambientParticleCount (e_options e) else c)
      in for_loop 0 (real_of_int particleCount) ambient_particle (e, g))"

section \<open>The frame update\<close>

text \<open>
  The \<^verbatim>\<open>switch\<close> of \<^verbatim>\<open>updateParticle\<close>: the point the particle is pulled to and the
  opacity it fades to, by the being's state.  \<open>dissolveProgress\<close> is the quotient as the
  source computes it, with no bound on it; for a dissolving time of 0, where JavaScript
  divides by zero, it is 0 here.
\<close>

definition dissolveProgress :: "being_data \<Rightarrow> real" where
  "dissolveProgress bd = stateTimer bd / t_dissolving (stateTimings (b_options bd))"

definition particle_target :: "particle \<Rightarrow> being_data \<Rightarrow> vec3 \<times> real" where
  "particle_target p bd =
     (if b_state bd = Some ''forming'' then (targetPosition p, originalOpacity p)
      else if b_state bd = Some ''stable'' then
        (let breathe = sin (transformationPhase bd * 2) * (1 / 10)
         in (add_v (multiplyScalar (targetPosition p) (1 + breathe)) (basePosition bd),
             originalOpacity p))
      else if b_state bd = Some ''dissolving'' then
        (lerpVectors (targetPosition p) (scatteredPosition p) (dissolveProgress bd),
         originalOpacity p * (1 - dissolveProgress bd))
      else if b_state bd = Some ''scattered'' then
        (add_v (scatteredPosition p)
           (Vector3 (sin (transformationPhase bd + real (particleIndex p)) * 5)
                    (cos (transformationPhase bd * (1 / 2) + real (particleIndex p)) * 3)
                    (sin (transformationPhase bd * (7 / 10) + real (particleIndex p)) * 5)),
         originalOpacity p * (3 / 10))
      else (targetPosition p, originalOpacity p))"

text \<open>\<^verbatim>\<open>options.attractionForces[beingData.state] || 0.02\<close>: 0 and a missing key give 0.02.\<close>

definition attraction :: "being_data \<Rightarrow> real" where
  "attraction bd =
     (case force_of (attractionForces (b_options bd)) (b_state bd) of
        None \<Rightarrow> 2 / 100
      | Some f \<Rightarrow> if f = 0 then 2 / 100 else f)"

text \<open>
  \<^verbatim>\<open>updateParticle\<close> in two parts: \<open>integrate\<close> is the body from the \<^verbatim>\<open>switch\<close> to the
  oscillation, \<open>containment\<close> the last block (``Prevent particles from going too far'').
  \<^verbatim>\<open>deltaTime\<close> is a parameter of the source function which its body never reads.
\<close>

definition integrate :: "real \<Rightarrow> particle \<Rightarrow> being_data \<Rightarrow> particle" where
  "integrate time p bd =
     (let opts = b_options bd;
          attractionForce = attraction bd;
          (targetPos, targetOpacity) = particle_target p bd;
          direction = sub_v targetPos (p_position p);
          distance = length_v direction;
          velocity1 = (if distance > 1 / 10
                       then add_v (p_velocity p)
                              (multiplyScalar (normalize_v direction) (attractionForce * min distance 5))
                       else p_velocity p);
          turbulence =
            Vector3 (sin (time * (24 / 10) + real (particleIndex p) * (1 / 10)) * turbulenceStrength opts)
                    (cos (time * (16 / 10) + real (particleIndex p) * (15 / 100)) * turbulenceStrength opts)
                    (sin (time * 2 + real (particleIndex p) * (12 / 100)) * turbulenceStrength opts);
          velocity2 = multiplyScalar (add_v velocity1 turbulence) (95 / 100);
          position1 = add_v (p_position p) velocity2;
          opacity1 = p_opacity p + (targetOpacity - p_opacity p) * (5 / 100);
          phase1 = oscillationPhase p + oscillationSpeed opts;
          oscillation = sin phase1 * (5 / 100)
      in p\<lparr> p_position := Vector3 (vx position1) (vy position1 + oscillation) (vz position1),
            p_opacity := opacity1,
            p_velocity := velocity2,
            oscillationPhase := phase1 \<rparr>)"

definition maxDistance :: real where
  "maxDistance = 25"

definition containment :: "particle \<Rightarrow> being_data \<Rightarrow> particle" where
  "containment p bd =
     (let distanceFromBase = distanceTo (p_position p) (basePosition bd)
      in if distanceFromBase > maxDistance
         then (let pullBack = normalize_v (sub_v (basePosition bd) (p_position p))
               in p\<lparr> p_velocity := add_v (p_velocity p) (multiplyScalar pullBack (1 / 100)) \<rparr>)
         else p)"

definition updateParticle :: "real \<Rightarrow> particle \<Rightarrow> being_data \<Rightarrow> real \<Rightarrow> particle" where
  "updateParticle time p bd deltaTime = containment (integrate time p bd) bd"

text \<open>
  \<^verbatim>\<open>states.indexOf(state)\<close> is the first index or \<open>-1\<close>;
  \<^verbatim>\<open>states[(currentIndex + 1) % states.length]\<close> is \<^verbatim>\<open>undefined\<close> only for an empty
  array (the index is \<^verbatim>\<open>NaN\<close>).
\<close>

fun indexOf_from :: "string list \<Rightarrow> string option \<Rightarrow> int \<Rightarrow> int" where
  "indexOf_from [] s i = - 1"
| "indexOf_from (x # xs) s i = (if Some x = s then i else indexOf_from xs s (i + 1))"

definition indexOf :: "string list \<Rightarrow> string option \<Rightarrow> int" where
  "indexOf xs s = indexOf_from xs s 0"

definition next_state :: "string list \<Rightarrow> string option \<Rightarrow> string option" where
  "next_state sts s =
     (let currentIndex = indexOf sts s
      in if sts = [] then None
         else Some (sts ! nat ((currentIndex + 1) mod int (length sts))))"

text \<open>
  The state transition of \<^verbatim>\<open>updateBeing\<close>, on the user data: the phase and the timer
  advance, then the timer is compared with the state's timing plus \<^verbatim>\<open>Math.random() * 2\<close>
  (\<open>r\<close> is that random number).  A state with no timing makes the sum \<^verbatim>\<open>NaN\<close> and the
  comparison false.
\<close>

definition advance_state :: "being_data \<Rightarrow> real \<Rightarrow> real \<Rightarrow> being_data" where
  "advance_state ud deltaTime r =
     (let ud1 = ud\<lparr> transformationPhase := transformationPhase ud + transformationSpeed ud * deltaTime,
                    stateTimer := stateTimer ud + deltaTime \<rparr>
      in case timing_of (stateTimings (b_options ud1)) (b_state ud1) of
           None \<Rightarrow> ud1
         | Some currentStateTiming \<Rightarrow>
             if stateTimer ud1 > currentStateTiming + r * 2
             then ud1\<lparr> b_state := next_state (states (b_options ud1)) (b_state ud1), stateTimer := 0 \<rparr>
             else ud1)"

definition updateBeing :: "real \<Rightarrow> being \<Rightarrow> real \<Rightarrow> rng \<Rightarrow> being \<times> rng" where
  "updateBeing time b deltaTime g =
     (let (r, g1) = Math_random g;
          ud = advance_state (userData b) deltaTime r
      in (\<lparr> particles = map (\<lambda>p. updateParticle time p ud deltaTime) (particles b),
            userData = ud \<rparr>, g1))"

fun update_beings :: "real \<Rightarrow> being list \<Rightarrow> real \<Rightarrow> rng \<Rightarrow> being list \<times> rng" where
  "update_beings time [] deltaTime g = ([], g)"
| "update_beings time (b # bs) deltaTime g =
     (let (b', g1) = updateBeing time b deltaTime g;
          (bs', g2) = update_beings time bs deltaTime g1
      in (b' # bs', g2))"

text \<open>
  An ambient particle's frame, in the three parts of the loop body: the move, the wrap
  (``Wrap around boundaries'', six assignments in the source's order) and the pulse.
\<close>

definition ambient_move :: "ambient \<Rightarrow> ambient" where
  "ambient_move a =
     (let velocity1 = add_v (a_velocity a) (a_drift a)
      in a\<lparr> a_position := add_v (a_position a) velocity1,
            a_velocity := multiplyScalar velocity1 (98 / 100) \<rparr>)"

definition wrap_position :: "vec3 \<Rightarrow> vec3" where
  "wrap_position q =
     (let x1 = (if vx q > 30 then - 30 else vx q);
          x2 = (if x1 < - 30 then 30 else x1);
          z1 = (if vz q > 30 then - 30 else vz q);
          z2 = (if z1 < - 30 then 30 else z1);
          y1 = (if vy q > 20 then 0 else vy q);
          y2 = (if y1 < 0 then 20 else y1)
      in Vector3 x2 y2 z2)"

definition ambient_wrap :: "ambient \<Rightarrow> ambient" where
  "ambient_wrap a = a\<lparr> a_position := wrap_position (a_position a) \<rparr>"

definition ambient_pulse :: "real \<Rightarrow> ambient \<Rightarrow> rng \<Rightarrow> ambient \<times> rng" where
  "ambient_pulse time a g =
     (let pulse = sin (time * 2 + vx (a_position a) * (1 / 10)) * (1 / 10);
          (r, g1) = Math_random g
      in (a\<lparr> a_opacity := (1 / 10 + r * (2 / 10)) * (1 + pulse) \<rparr>, g1))"

definition updateAmbientParticle :: "real \<Rightarrow> ambient \<Rightarrow> rng \<Rightarrow> ambient \<times> rng" where
  "updateAmbientParticle time a g = ambient_pulse time (ambient_wrap (ambient_move a)) g"

fun updateAmbientParticles :: "real \<Rightarrow> ambient list \<Rightarrow> real \<Rightarrow> rng \<Rightarrow> ambient list \<times> rng" where
  "updateAmbientParticles time [] deltaTime g = ([], g)"
| "updateAmbientParticles time (a # as) deltaTime g =
     (let (a', g1) = updateAmbientParticle time a g;
          (as', g2) = updateAmbientParticles time as deltaTime g1
      in (a' # as', g2))"

definition update :: "engine \<Rightarrow> real \<Rightarrow> rng \<Rightarrow> engine \<times> rng" where
  "update e deltaTime g =
     (let time = e_time e + deltaTime;
          (bs, g1) = update_beings time (e_beings e) deltaTime g;
          (as, g2) = updateAmbientParticles time (e_ambientParticles e) deltaTime g1
      in (e\<lparr> e_time := time, e_beings := bs, e_ambientParticles := as \<rparr>, g2))"

section \<open>Pointer influence and disposal\<close>

definition influence_particle :: "vec3 \<Rightarrow> real \<Rightarrow> particle \<Rightarrow> particle" where
  "influence_particle mouseInfluence strength p =
     (let distance = distanceTo (p_position p)
                       (Vector3 (vx mouseInfluence * 10) (vy mouseInfluence * 10 + 5) 0)
      in if distance < 10
         then p\<lparr> p_velocity := add_v (p_velocity p)
                   (multiplyScalar (normalize_v (sub_v mouseInfluence (p_position p)))
                      ((1 / 100) * strength)) \<rparr>
         else p)"

definition applyMouseInfluence :: "engine \<Rightarrow> real \<Rightarrow> real \<Rightarrow> real \<Rightarrow> engine" where
  "applyMouseInfluence e mouseX mouseY strength =
     (let mouseInfluence = Vector3 (mouseX * 2) (mouseY * 2) 0
      in e\<lparr> e_beings :=
             map (\<lambda>b. b\<lparr> particles := map (influence_particle mouseInfluence strength) (particles b) \<rparr>)
               (e_beings e) \<rparr>)"

text \<open>
  \<^verbatim>\<open>dispose\<close>: every particle leaves the scene (its geometry and material are released,
  which the model has no state for), every being's source mesh, if it has one, is shown
  again, and both arrays are emptied.
\<close>

definition dispose_being :: "being \<Rightarrow> drawable list \<times> heap \<Rightarrow> drawable list \<times> heap" where
  "dispose_being b s =
     (let (sc, h) = s;
          sc1 = fold (\<lambda>p. scene_remove (handle p)) (particles b) sc;
          h1 = (case originalMesh (userData b) of
                  None \<Rightarrow> h
                | Some r \<Rightarrow> h(r := (h r)\<lparr> m_visible := True \<rparr>))
      in (sc1, h1))"

definition dispose :: "engine \<Rightarrow> heap \<Rightarrow> engine \<times> heap" where
  "dispose e h =
     (let (sc1, h1) = fold dispose_being (e_beings e) (e_scene e, h);
          sc2 = fold (\<lambda>a. scene_remove (AmbientParticle (a_id a))) (e_ambientParticles e) sc1
      in (e\<lparr> e_scene := sc2, e_beings := [], e_ambientParticles := [] \<rparr>, h1))"

section \<open>Predicates and inputs used by the theorems\<close>

text \<open>
  A source the sampler can read without raising: anything but a buffer geometry whose
  position attribute is missing.  A source has vertices when its buffer is not empty.
\<close>

definition readable_source :: "mesh option \<Rightarrow> bool" where
  "readable_source m =
     (case m of
        None \<Rightarrow> True
      | Some msh \<Rightarrow> (case m_geometry msh of Some (BufferGeometry None) \<Rightarrow> False | _ \<Rightarrow> True))"

definition has_vertices :: "mesh option \<Rightarrow> bool" where
  "has_vertices m =
     (case m of
        None \<Rightarrow> False
      | Some msh \<Rightarrow> (case m_geometry msh of Some (BufferGeometry (Some (v # vs))) \<Rightarrow> True | _ \<Rightarrow> False))"

text \<open>
  The lifecycle as the specification words it: four states, and the state that follows
  each (Forming, Stable, Dissolving, Scattered, Forming, ...).  \<open>run_being\<close> is a being
  under a sequence of frames, as \<^verbatim>\<open>update\<close> drives it (the engine's clock advances
  with every frame), and \<open>cycle_walk\<close> says of a sequence of states that each one is
  its predecessor or the successor of its predecessor.
\<close>

definition cycle_successor :: "string \<Rightarrow> string" where
  "cycle_successor s =
     (if s = ''forming'' then ''stable''
      else if s = ''stable'' then ''dissolving''
      else if s = ''dissolving'' then ''scattered''
      else ''forming'')"

definition lifecycle_state :: "string option \<Rightarrow> bool" where
  "lifecycle_state s =
     (s = Some ''forming'' \<or> s = Some ''stable'' \<or> s = Some ''dissolving'' \<or> s = Some ''scattered'')"

fun run_being :: "real \<Rightarrow> being \<Rightarrow> real list \<Rightarrow> rng \<Rightarrow> being list" where
  "run_being time b [] g = [b]"
| "run_being time b (dt # dts) g =
     b # run_being (time + dt) (fst (updateBeing (time + dt) b dt g)) dts
           (snd (updateBeing (time + dt) b dt g))"

fun cycle_walk :: "string option list \<Rightarrow> bool" where
  "cycle_walk (s # s' # rest) =
     ((s' = s \<or> s' = map_option cycle_successor s) \<and> cycle_walk (s' # rest))"
| "cycle_walk [s] = True"
| "cycle_walk [] = True"

text \<open>Concrete beings and particles, with the default options, for the examples.\<close>

definition sample_data :: "string \<Rightarrow> real \<Rightarrow> being_data" where
  "sample_data s t =
     \<lparr> b_index = 0, transformationPhase = 0, transformationSpeed = 3 / 10, b_state = Some s,
       stateTimer = t, basePosition = Vector3 0 0 0, originalMesh = None,
       b_options = default_options \<rparr>"

definition sample_particle :: "vec3 \<Rightarrow> vec3 \<Rightarrow> real \<Rightarrow> particle" where
  "sample_particle pos vel op =
     \<lparr> p_position = pos, p_opacity = op, p_color = (0, 0, 1 / 4), p_size = 8 / 100,
       targetPosition = Vector3 0 3 0, scatteredPosition = Vector3 5 5 5, p_velocity = vel,
       originalOpacity = 7 / 10, oscillationPhase = 0, beingIndex = 0, particleIndex = 0 \<rparr>"

definition sample_being :: "string \<Rightarrow> real \<Rightarrow> particle list \<Rightarrow> being" where
  "sample_being s t ps = \<lparr> particles = ps, userData = sample_data s t \<rparr>"

definition sample_ambient :: "vec3 \<Rightarrow> vec3 \<Rightarrow> ambient" where
  "sample_ambient pos vel =
     \<lparr> a_id = 0, a_position = pos, a_opacity = 2 / 10, a_velocity = vel,
       a_drift = Vector3 (8 / 1000) 0 0 \<rparr>"

definition sample_engine :: "being list \<Rightarrow> ambient list \<Rightarrow> engine" where
  "sample_engine bs as =
     \<lparr> e_scene = [], e_beings = bs, e_ambientParticles = as, e_time = 0,
       e_options = default_options \<rparr>"

text \<open>
  An engine with one being of three particles, at \<open>(0, 12, 0)\<close>, \<open>(0, 2, 0)\<close> and
  \<open>(0, 30, 0)\<close>, all at rest, for the pointer at \<open>(0, 0)\<close>.
\<close>

definition mouse_engine :: engine where
  "mouse_engine =
     sample_engine
       [sample_being ''stable'' 0
          [sample_particle (Vector3 0 12 0) (Vector3 0 0 0) (7 / 10),
           sample_particle (Vector3 0 2 0) (Vector3 0 0 0) (7 / 10),
           sample_particle (Vector3 0 30 0) (Vector3 0 0 0) (7 / 10)]] []"

text \<open>
  An engine to dispose of: one being made from the source mesh 7, which the heap holds
  hidden, one ambient particle, both in the scene.  And an ambient particle on the edge
  of the box, moving out of it on all three axes.
\<close>

definition hidden_heap :: heap where
  "hidden_heap = (\<lambda>r. \<lparr> m_geometry = None, m_visible = False \<rparr>)"

definition disposable_engine :: engine where
  "disposable_engine =
     \<lparr> e_scene = [BeingParticle 0 0, AmbientParticle 0],
       e_beings = [\<lparr> particles = [sample_particle (Vector3 0 3 0) (Vector3 0 0 0) (7 / 10)],
                     userData = (sample_data ''stable'' 1)\<lparr> originalMesh := Some 7 \<rparr> \<rparr>],
       e_ambientParticles = [sample_ambient (Vector3 0 10 0) (Vector3 0 0 0)],
       e_time = 5,
       e_options = default_options \<rparr>"

definition drifting_ambient :: ambient where
  "drifting_ambient = sample_ambient (Vector3 30 20 (- 30)) (Vector3 (1 / 20) (1 / 25) (- (1 / 100)))"

text \<open>
  A run from the interface: a fresh engine, a source mesh of one vertex, the options
  \<^verbatim>\<open>{particleCount: 1, stateTimings: {forming: 0.1, stable: 0.1, dissolving: 0.1,
  scattered: 0.1}}\<close>, random numbers that are 0 ten times and 0.9 from then on, and frames
  run one after the other by \<open>run_updates\<close>.  \<open>shape e s t op\<close> says that the engine has
  one being of one particle with base opacity 0.7, in state \<open>s\<close> with timer \<open>t\<close> and
  opacity \<open>op\<close>, under these options; \<open>frame_state\<close> and \<open>frame_opacity\<close> are the state,
  timer and opacity that one frame makes of them.
\<close>

definition vertex_heap :: heap where
  "vertex_heap = (\<lambda>r. \<lparr> m_geometry = Some (BufferGeometry (Some [Vector3 0 0 0])), m_visible = True \<rparr>)"

definition short_cycle :: custom_options where
  "short_cycle =
     no_options\<lparr> o_particleCount := Some 1,
                  o_stateTimings := Some \<lparr> t_forming = 1 / 10, t_stable = 1 / 10,
                                          t_dissolving = 1 / 10, t_scattered = 1 / 10 \<rparr> \<rparr>"

definition late_jitter :: rng where
  "late_jitter = (\<lambda>n. if n < 10 then 0 else 9 / 10)"

fun run_updates :: "engine \<Rightarrow> real list \<Rightarrow> rng \<Rightarrow> engine \<times> rng" where
  "run_updates e [] g = (e, g)"
| "run_updates e (dt # dts) g = run_updates (fst (update e dt g)) dts (snd (update e dt g))"

definition converted :: "error + being \<times> engine \<times> heap \<times> rng" where
  "converted =
     convertToParticleBeing (new_system [] no_options) vertex_heap (Some 0) (Vector3 0 0 0)
       short_cycle late_jitter"

definition tenths :: stateTimings where
  "tenths = \<lparr> t_forming = 1 / 10, t_stable = 1 / 10, t_dissolving = 1 / 10, t_scattered = 1 / 10 \<rparr>"

definition shape :: "engine \<Rightarrow> string \<Rightarrow> real \<Rightarrow> real \<Rightarrow> bool" where
  "shape e s t op =
     (\<exists>b p. e_beings e = [b] \<and> e_ambientParticles e = [] \<and> particles b = [p] \<and>
            b_state (userData b) = Some s \<and> stateTimer (userData b) = t \<and>
            states (b_options (userData b)) = default_states \<and>
            stateTimings (b_options (userData b)) = tenths \<and>
            p_opacity p = op \<and> originalOpacity p = 7 / 10)"

definition frame_state :: "string \<Rightarrow> real \<Rightarrow> real \<Rightarrow> real \<Rightarrow> string \<times> real" where
  "frame_state s t dt r =
     (if t + dt > 1 / 10 + r * 2 then (cycle_successor s, 0) else (s, t + dt))"

definition frame_opacity :: "string \<times> real \<Rightarrow> real \<Rightarrow> real" where
  "frame_opacity st op =
     op + ((if fst st = ''dissolving'' then (7 / 10) * (1 - snd st / (1 / 10))
            else if fst st = ''scattered'' then (7 / 10) * (3 / 10)
            else 7 / 10) - op) * (5 / 100)"

definition jitter_from :: "nat \<Rightarrow> rng" where
  "jitter_from k = (\<lambda>n. late_jitter (n + k))"

text \<open>
  A conversion of the one-vertex mesh under options that name a state list of their own,
  \<^verbatim>\<open>{particleCount: 1, states: ['forming', 'scattered']}\<close>.
\<close>

definition two_states :: custom_options where
  "two_states = no_options\<lparr> o_particleCount := Some 1, o_states := Some [''forming'', ''scattered''] \<rparr>"

definition two_state_conversion :: "error + being \<times> engine \<times> heap \<times> rng" where
  "two_state_conversion =
     convertToParticleBeing (new_system [] no_options) vertex_heap (Some 0) (Vector3 0 0 0)
       two_states (\<lambda>n. 0)"

section \<open>Lemmas: loops and the sampler\<close>

declare for_loop.simps [simp del]

lemma for_loop_step: "real i < b \<Longrightarrow> for_loop i b body s = for_loop (Suc i) b body (body i s)"
  by (subst for_loop.simps) simp

lemma for_loop_stop: "\<not> real i < b \<Longrightarrow> for_loop i b body s = s"
  by (subst for_loop.simps) simp

lemma for_loop_adds:
  "(\<And>i s. length (fst (body i s)) = length (fst s) + k) \<Longrightarrow>
   length (fst (for_loop i b body s)) = length (fst s) + k * (nat \<lceil>b\<rceil> - i)"
proof (induction i b body s rule: for_loop.induct)
  case (1 i bound body s)
  show ?case
  proof (cases "real i < bound")
    case True
    then have "i < nat \<lceil>bound\<rceil>" by linarith
    then have "nat \<lceil>bound\<rceil> - i = Suc (nat \<lceil>bound\<rceil> - Suc i)" by simp
    moreover have "length (fst (for_loop (Suc i) bound body (body i s)))
                     = length (fst (body i s)) + k * (nat \<lceil>bound\<rceil> - Suc i)"
      using "1.IH" [OF True "1.prems"] .
    ultimately show ?thesis
      using True "1.prems" by (simp add: for_loop_step)
  next
    case False
    then have "nat \<lceil>bound\<rceil> - i = 0" by linarith
    with False show ?thesis by (simp add: for_loop_stop)
  qed
qed

lemma head_point_length: "length (fst (head_point c i s)) = length (fst s) + 1"
  by (simp add: head_point_def Math_random_def Let_def split: prod.splits)

lemma torso_point_length: "length (fst (torso_point c i s)) = length (fst s) + 1"
  by (simp add: torso_point_def Math_random_def Let_def split: prod.splits)

lemma arm_point_length: "length (fst (arm_point c n sd i s)) = length (fst s) + 1"
  by (simp add: arm_point_def Math_random_def Let_def split: prod.splits)

lemma leg_point_length: "length (fst (leg_point c n sd i s)) = length (fst s) + 1"
  by (simp add: leg_point_def Math_random_def Let_def split: prod.splits)

lemma limbs_length:
  assumes "\<And>sd i s. length (fst (body sd i s)) = length (fst s) + 1"
  shows "length (fst (for_loop 0 2 (\<lambda>limb. for_loop 0 b (body (f limb))) s))
           = length (fst s) + 2 * nat \<lceil>b\<rceil>"
proof -
  have inner: "\<And>limb s. length (fst (for_loop 0 b (body (f limb)) s)) = length (fst s) + nat \<lceil>b\<rceil>"
    using for_loop_adds [of "body (f _)" 1 0 b] assms by simp
  have "length (fst (for_loop 0 2 (\<lambda>limb. for_loop 0 b (body (f limb))) s))
          = length (fst s) + nat \<lceil>b\<rceil> * (nat \<lceil>2::real\<rceil> - 0)"
    by (rule for_loop_adds) (rule inner)
  then show ?thesis by simp
qed

lemma generate_length:
  "length (fst (generateHumanSilhouettePoints count bodyType g)) =
     (let n3 = nat \<lfloor>real_of_int count * (15 / 100)\<rfloor> + nat \<lfloor>real_of_int count * (35 / 100)\<rfloor>
               + 2 * nat \<lceil>real_of_int \<lfloor>real_of_int count * (25 / 100)\<rfloor> / 2\<rceil>
      in n3 + 2 * nat \<lceil>real_of_int (count - int n3) / 2\<rceil>)"
  unfolding generateHumanSilhouettePoints_def Let_def
  by (simp only: limbs_length [where body = "arm_point c n" for c n, OF arm_point_length]
        limbs_length [where body = "leg_point c n" for c n, OF leg_point_length]
        for_loop_adds [where k = 1, OF head_point_length]
        for_loop_adds [where k = 1, OF torso_point_length]) simp

lemma createParticle_target:
  "targetPosition (fst (createParticle pt pos opts g)) =
     Vector3 (vx pos + vx pt) (vy pos + vy pt + 2) (vz pos + vz pt)"
  by (simp add: createParticle_def Math_random_def Let_def split: prod.splits)

lemma create_particles_targets:
  "map targetPosition (fst (create_particles points i pos opts bi sc g)) =
     map (\<lambda>pt. Vector3 (vx pos + vx pt) (vy pos + vy pt + 2) (vz pos + vz pt)) points"
proof (induction points arbitrary: i sc g)
  case Nil
  show ?case by simp
next
  case (Cons pt points)
  obtain p g1 where cp: "createParticle pt pos opts g = (p, g1)" by (cases "createParticle pt pos opts g")
  have tp: "targetPosition p = Vector3 (vx pos + vx pt) (vy pos + vy pt + 2) (vz pos + vz pt)"
    using createParticle_target [of pt pos opts g] cp by simp
  show ?case
    using Cons.IH tp by (simp add: cp Let_def split: prod.splits) (metis fst_conv)
qed

lemma create_particles_length:
  "length (fst (create_particles points i pos opts bi sc g)) = length points"
  using arg_cong [OF create_particles_targets [of points i pos opts bi sc g], of length]
  by simp

lemma extract_no_source:
  "extractPointsFromMesh None count g = Inr (generateHumanSilhouettePoints count ''adult'' g)"
  by (simp add: extractPointsFromMesh_def)

lemma convert_no_source:
  "convertToParticleBeing e h None pos given g =
     (let opts = spread (e_options e) given;
          ud = \<lparr> b_index = length (e_beings e), transformationPhase = g 0 * pi * 2,
                 transformationSpeed = (3 / 10 + g 1 * (2 / 10)) * speedMultiplier opts,
                 b_state = Some ''forming'', stateTimer = 0, basePosition = pos,
                 originalMesh = None, b_options = opts \<rparr>;
          gen = generateHumanSilhouettePoints (particleCount opts) ''adult'' (\<lambda>n. g (Suc (Suc n)));
          made = create_particles (fst gen) 0 pos opts (length (e_beings e)) (e_scene e) (snd gen);
          b = \<lparr> particles = fst made, userData = ud \<rparr>
      in Inr (b, e\<lparr> e_scene := fst (snd made), e_beings := e_beings e @ [b] \<rparr>, h, snd (snd made)))"
  by (simp add: convertToParticleBeing_def extract_no_source Math_random_def Let_def
           split: prod.splits)

declare fill_loop.simps [simp del]

lemma generate_empty_iff:
  "fst (generateHumanSilhouettePoints count bodyType g) = [] \<longleftrightarrow> count \<le> 0"
proof -
  have "length (fst (generateHumanSilhouettePoints count bodyType g)) = 0 \<longleftrightarrow> count \<le> 0"
  proof (cases "count \<le> 0")
    case True
    then have a: "\<lfloor>real_of_int count * (15 / 100)\<rfloor> \<le> 0" "\<lfloor>real_of_int count * (35 / 100)\<rfloor> \<le> 0"
      "\<lfloor>real_of_int count * (25 / 100)\<rfloor> \<le> 0"
      by (simp_all add: floor_le_iff) 
    then have b: "\<lceil>real_of_int \<lfloor>real_of_int count * (25 / 100)\<rfloor> / 2\<rceil> \<le> 0"
      by (simp add: ceiling_le_iff)
    have c: "\<lceil>real_of_int count / 2\<rceil> \<le> 0" using True by (simp add: ceiling_le_iff)
    show ?thesis using True a b c by (simp add: generate_length Let_def)
  next
    case False
    have nz: "n3 + 2 * nat \<lceil>real_of_int (count - int n3) / 2\<rceil> \<noteq> 0" for n3 :: nat
    proof (cases "n3 = 0")
      case True
      have "0 < \<lceil>real_of_int count / 2\<rceil>" using False by (simp add: less_ceiling_iff)
      then show ?thesis using True by simp
    next
      case False
      then show ?thesis by simp
    qed
    have "length (fst (generateHumanSilhouettePoints count bodyType g)) \<noteq> 0"
      unfolding generate_length Let_def by (rule nz)
    then show ?thesis using False by simp
  qed
  then show ?thesis by simp
qed

lemma unit_rng_shift: "unit_rng g \<Longrightarrow> unit_rng (\<lambda>n. g (n + k))"
  by (simp add: unit_rng_def)

lemma random_index:
  assumes "0 \<le> r" "r < 1" "0 < n"
  shows "0 \<le> \<lfloor>r * real n\<rfloor> \<and> \<lfloor>r * real n\<rfloor> < int n"
proof -
  have "r * real n < 1 * real n" using assms by (intro mult_strict_right_mono) simp_all
  then have "\<lfloor>r * real n\<rfloor> < int n" by (simp add: floor_less_iff)
  moreover have "0 \<le> r * real n" using assms by simp
  ultimately show ?thesis by simp
qed

lemma fill_loop_total:
  "unit_rng g \<Longrightarrow> \<exists>pts g'. fill_loop count points g = Inr (pts, g') \<and> (pts = [] \<longleftrightarrow> points = [])"
proof (induction count points g rule: fill_loop.induct)
  case (1 targetCount points g)
  show ?case
  proof (cases "int (length points) < targetCount \<and> length points > 0")
    case True
    have u: "0 \<le> g 0" "g 0 < 1" "0 \<le> g 1" "g 1 < 1" using "1.prems" by (simp_all add: unit_rng_def)
    have i1: "0 \<le> \<lfloor>g 0 * real (length points)\<rfloor> \<and> \<lfloor>g 0 * real (length points)\<rfloor> < int (length points)"
      using random_index u True by blast
    have i2: "0 \<le> \<lfloor>g 1 * real (length points)\<rfloor> \<and> \<lfloor>g 1 * real (length points)\<rfloor> < int (length points)"
      using random_index u True by blast
    have "\<exists>pts g'. fill_loop targetCount
              (points @ [lerpVectors (points ! nat \<lfloor>g 0 * real (length points)\<rfloor>)
                                     (points ! nat \<lfloor>g 1 * real (length points)\<rfloor>) (g 2)])
              (\<lambda>n. g (n + 3)) = Inr (pts, g') \<and>
            (pts = [] \<longleftrightarrow> points @ [lerpVectors (points ! nat \<lfloor>g 0 * real (length points)\<rfloor>)
                                     (points ! nat \<lfloor>g 1 * real (length points)\<rfloor>) (g 2)] = [])"
      using "1.IH" [OF True refl refl refl _ unit_rng_shift [OF "1.prems"]] i1 i2 by simp
    then show ?thesis
      using True i1 i2 by (subst fill_loop.simps) (auto simp: Let_def)
  next
    case False
    then show ?thesis by (subst fill_loop.simps) auto
  qed
qed

lemma extract_total:
  assumes "unit_rng g" "readable_source m"
  shows "\<exists>pts g'. extractPointsFromMesh m count g = Inr (pts, g') \<and> (pts = [] \<longleftrightarrow> count \<le> 0)"
proof -
  have gen: "\<exists>pts g'. Inr (generateHumanSilhouettePoints count ''adult'' g0) = (Inr (pts, g') :: error + vec3 list \<times> rng)
               \<and> (pts = [] \<longleftrightarrow> count \<le> 0)" for g0
    using generate_empty_iff [of count "''adult''" g0]
    by (cases "generateHumanSilhouettePoints count ''adult'' g0") simp
  have via_fill: "\<exists>pts g'. (case fill_loop count points g of
                       Inl e \<Rightarrow> Inl e
                     | Inr (points', g') \<Rightarrow>
                         if length points' > 0 then Inr (points', g')
                         else Inr (generateHumanSilhouettePoints count ''adult'' g')) = Inr (pts, g')
               \<and> (pts = [] \<longleftrightarrow> count \<le> 0)"
    if "points \<noteq> [] \<longrightarrow> 0 < count" for points
  proof -
    obtain ps g1 where f: "fill_loop count points g = Inr (ps, g1)" "ps = [] \<longleftrightarrow> points = []"
      using fill_loop_total [OF assms(1)] by blast
    show ?thesis
    proof (cases "ps = []")
      case True
      then show ?thesis using f gen [of g1] by simp
    next
      case False
      then show ?thesis using f that by auto
    qed
  qed
  show ?thesis
  proof (cases m)
    case None
    then show ?thesis using gen [of g] by (simp add: extractPointsFromMesh_def)
  next
    case (Some msh)
    show ?thesis
    proof (cases "m_geometry msh")
      case None
      then show ?thesis using Some gen [of g] by (simp add: extractPointsFromMesh_def)
    next
      case (Some geo)
      show ?thesis
      proof (cases geo)
        case OtherGeometry
        then show ?thesis
          using \<open>m = Some msh\<close> Some via_fill [of "[]"] by (simp add: extractPointsFromMesh_def)
      next
        case (BufferGeometry attr)
        then obtain positions where attr: "attr = Some positions"
          using assms(2) \<open>m = Some msh\<close> Some by (cases attr) (simp_all add: readable_source_def)
        have "stride_loop positions count 0 [] \<noteq> [] \<longrightarrow> 0 < count"
          by (subst stride_loop.simps) auto
        then show ?thesis
          using \<open>m = Some msh\<close> Some BufferGeometry attr via_fill [of "stride_loop positions count 0 []"]
          by (simp add: extractPointsFromMesh_def)
      qed
    qed
  qed
qed

lemma fill_loop_empty: "fill_loop count [] g = Inr ([], g)"
  by (subst fill_loop.simps) simp

lemma extract_fallback:
  assumes "readable_source m" "\<not> has_vertices m"
  shows "extractPointsFromMesh m count g = Inr (generateHumanSilhouettePoints count ''adult'' g)"
proof (cases m)
  case None
  then show ?thesis by (simp add: extractPointsFromMesh_def)
next
  case (Some msh)
  show ?thesis
  proof (cases "m_geometry msh")
    case None
    then show ?thesis using Some by (simp add: extractPointsFromMesh_def)
  next
    case geo: (Some geo)
    show ?thesis
    proof (cases geo)
      case OtherGeometry
      then show ?thesis using Some geo by (simp add: extractPointsFromMesh_def fill_loop_empty)
    next
      case (BufferGeometry attr)
      then have attr: "attr = Some []"
        using assms Some geo
        by (cases attr; cases "the attr") (simp_all add: readable_source_def has_vertices_def)
      have "stride_loop [] count 0 [] = []" by (subst stride_loop.simps) simp
      then show ?thesis
        using Some geo BufferGeometry attr by (simp add: extractPointsFromMesh_def fill_loop_empty)
    qed
  qed
qed

lemma extract_missing_attribute:
  "m_geometry msh = Some (BufferGeometry None) \<Longrightarrow> extractPointsFromMesh (Some msh) count g = Inl TypeError"
  by (simp add: extractPointsFromMesh_def)

section \<open>Lemmas: the state machine\<close>

lemma lifecycle_cases:
  assumes "lifecycle_state s"
  obtains "s = Some ''forming''" | "s = Some ''stable''" | "s = Some ''dissolving''"
    | "s = Some ''scattered''"
  using assms unfolding lifecycle_state_def by blast

lemma next_state_default:
  assumes "lifecycle_state s"
  shows "next_state default_states s = map_option cycle_successor s"
  using assms
  by (rule lifecycle_cases)
     (simp_all add: next_state_def indexOf_def default_states_def cycle_successor_def)

lemma timing_of_lifecycle:
  assumes "lifecycle_state s"
  shows "\<exists>nominal. timing_of t s = Some nominal"
  using assms by (rule lifecycle_cases) (simp_all add: timing_of_def)

lemma lifecycle_successor:
  assumes "lifecycle_state s"
  shows "lifecycle_state (map_option cycle_successor s) \<and> map_option cycle_successor s \<noteq> s"
  using assms
  by (rule lifecycle_cases) (simp_all add: lifecycle_state_def cycle_successor_def)

lemma updateBeing_userData:
  "userData (fst (updateBeing time b dt g)) = advance_state (userData b) dt (g 0)"
  by (simp add: updateBeing_def Math_random_def Let_def)

lemma updateBeing_rng: "snd (updateBeing time b dt g) = (\<lambda>n. g (Suc n))"
  by (simp add: updateBeing_def Math_random_def Let_def)

lemma advance_state_options: "b_options (advance_state ud dt r) = b_options ud"
  by (simp add: advance_state_def Let_def split: option.splits)

lemma advance_state_cases:
  assumes "states (b_options ud) = default_states" "lifecycle_state (b_state ud)"
  shows "\<exists>nominal. timing_of (stateTimings (b_options ud)) (b_state ud) = Some nominal \<and>
           (if stateTimer ud + dt > nominal + r * 2
            then b_state (advance_state ud dt r) = map_option cycle_successor (b_state ud) \<and>
                 stateTimer (advance_state ud dt r) = 0
            else b_state (advance_state ud dt r) = b_state ud \<and>
                 stateTimer (advance_state ud dt r) = stateTimer ud + dt)"
proof -
  obtain nominal where n: "timing_of (stateTimings (b_options ud)) (b_state ud) = Some nominal"
    using timing_of_lifecycle [OF assms(2)] by blast
  show ?thesis
    using n assms next_state_default [OF assms(2)] by (simp add: advance_state_def Let_def)
qed

lemma run_being_states:
  assumes "states (b_options (userData b)) = default_states"
      and "lifecycle_state (b_state (userData b))"
  shows "cycle_walk (map (\<lambda>b. b_state (userData b)) (run_being time b dts g))"
  using assms
proof (induction dts arbitrary: time b g)
  case Nil
  show ?case by simp
next
  case (Cons dt dts)
  let ?b' = "fst (updateBeing (time + dt) b dt g)"
  obtain nominal where n:
    "if stateTimer (userData b) + dt > nominal + g 0 * 2
     then b_state (advance_state (userData b) dt (g 0)) = map_option cycle_successor (b_state (userData b)) \<and>
          stateTimer (advance_state (userData b) dt (g 0)) = 0
     else b_state (advance_state (userData b) dt (g 0)) = b_state (userData b) \<and>
          stateTimer (advance_state (userData b) dt (g 0)) = stateTimer (userData b) + dt"
    using advance_state_cases [OF Cons.prems, where dt = dt and r = "g 0"] by blast
  have step: "b_state (userData ?b') = b_state (userData b) \<or>
              b_state (userData ?b') = map_option cycle_successor (b_state (userData b))"
    using n by (simp add: updateBeing_userData split: if_splits)
  have l: "lifecycle_state (b_state (userData ?b'))"
    using step Cons.prems(2) lifecycle_successor [OF Cons.prems(2)] by auto
  have o: "states (b_options (userData ?b')) = default_states"
    using Cons.prems(1) by (simp add: updateBeing_userData advance_state_options)
  have "cycle_walk (map (\<lambda>b. b_state (userData b)) (run_being (time + dt) ?b' dts (snd (updateBeing (time + dt) b dt g))))"
    by (rule Cons.IH [OF o l])
  then show ?case
    using step by (cases dts) simp_all
qed

section \<open>Lemmas: the particle step\<close>

lemma containment_fields:
  "p_position (containment p bd) = p_position p"
  "p_opacity (containment p bd) = p_opacity p"
  "originalOpacity (containment p bd) = originalOpacity p"
  "targetPosition (containment p bd) = targetPosition p"
  "scatteredPosition (containment p bd) = scatteredPosition p"
  "particleIndex (containment p bd) = particleIndex p"
  "oscillationPhase (containment p bd) = oscillationPhase p"
  by (simp_all add: containment_def Let_def)

lemma integrate_fields:
  "p_opacity (integrate time p bd) = p_opacity p + (snd (particle_target p bd) - p_opacity p) * (5 / 100)"
  "originalOpacity (integrate time p bd) = originalOpacity p"
  "targetPosition (integrate time p bd) = targetPosition p"
  "scatteredPosition (integrate time p bd) = scatteredPosition p"
  "particleIndex (integrate time p bd) = particleIndex p"
  "oscillationPhase (integrate time p bd) = oscillationPhase p + oscillationSpeed (b_options bd)"
  by (simp_all add: integrate_def Let_def split: prod.splits)

lemma updateParticle_opacity:
  "p_opacity (updateParticle time p bd dt) =
     p_opacity p + (snd (particle_target p bd) - p_opacity p) * (5 / 100)"
  by (simp add: updateParticle_def containment_fields integrate_fields)


section \<open>Lemmas: the engine's frame\<close>

lemma unit_rng_Suc: "unit_rng g \<Longrightarrow> unit_rng (\<lambda>n. g (Suc n))"
  by (simp add: unit_rng_def)

lemma updateAmbientParticle_rng: "snd (updateAmbientParticle time a g) = (\<lambda>n. g (Suc n))"
  by (simp add: updateAmbientParticle_def ambient_pulse_def Math_random_def Let_def)

lemma updateAmbientParticle_opacity:
  "a_opacity (fst (updateAmbientParticle time a g)) =
     (1 / 10 + g 0 * (2 / 10)) *
     (1 + sin (time * 2 + vx (a_position (ambient_wrap (ambient_move a))) * (1 / 10)) * (1 / 10))"
  by (simp add: updateAmbientParticle_def ambient_pulse_def Math_random_def Let_def)

lemma ambient_opacity_bounds:
  fixes r x :: real
  assumes "0 \<le> r" "r < 1"
  shows "0 \<le> (1 / 10 + r * (2 / 10)) * (1 + sin x * (1 / 10)) \<and>
         (1 / 10 + r * (2 / 10)) * (1 + sin x * (1 / 10)) \<le> 1"
proof -
  have s: "- 1 \<le> sin x" "sin x \<le> 1" by simp_all
  have a: "0 \<le> 1 / 10 + r * (2 / 10)" "1 / 10 + r * (2 / 10) \<le> 3 / 10" using assms by simp_all
  have b: "0 \<le> 1 + sin x * (1 / 10)" "1 + sin x * (1 / 10) \<le> 11 / 10" using s by linarith+
  have "(1 / 10 + r * (2 / 10)) * (1 + sin x * (1 / 10)) \<le> (3 / 10) * (11 / 10)"
    using a b by (intro mult_mono) simp_all
  moreover have "0 \<le> (1 / 10 + r * (2 / 10)) * (1 + sin x * (1 / 10))"
    using a(1) b(1) by (rule mult_nonneg_nonneg)
  ultimately show ?thesis by simp
qed

lemma updateAmbientParticles_Cons:
  "updateAmbientParticles time (a # as) dt g =
     (fst (updateAmbientParticle time a g) # fst (updateAmbientParticles time as dt (\<lambda>n. g (Suc n))),
      snd (updateAmbientParticles time as dt (\<lambda>n. g (Suc n))))"
  by (simp add: Let_def case_prod_beta updateAmbientParticle_rng)

lemma update_beings_Cons:
  "update_beings time (b # bs) dt g =
     (fst (updateBeing time b dt g) # fst (update_beings time bs dt (\<lambda>n. g (Suc n))),
      snd (update_beings time bs dt (\<lambda>n. g (Suc n))))"
  by (simp add: Let_def case_prod_beta updateBeing_rng)

declare update_beings.simps(2) [simp del] updateAmbientParticles.simps(2) [simp del]

declare update_beings_Cons [simp] updateAmbientParticles_Cons [simp]

lemma updateAmbientParticles_opacity:
  "unit_rng g \<Longrightarrow> a \<in> set (fst (updateAmbientParticles time as dt g)) \<Longrightarrow>
     0 \<le> a_opacity a \<and> a_opacity a \<le> 1"
proof (induction as arbitrary: g)
  case Nil
  then show ?case by simp
next
  case (Cons a0 as)
  have r: "0 \<le> g 0" "g 0 < 1" using Cons.prems(1) by (simp_all add: unit_rng_def)
  have hd: "0 \<le> a_opacity (fst (updateAmbientParticle time a0 g)) \<and>
            a_opacity (fst (updateAmbientParticle time a0 g)) \<le> 1"
    unfolding updateAmbientParticle_opacity using r by (rule ambient_opacity_bounds)
  have tl: "a \<in> set (fst (updateAmbientParticles time as dt (\<lambda>n. g (Suc n)))) \<Longrightarrow>
            0 \<le> a_opacity a \<and> a_opacity a \<le> 1"
    using Cons.IH [OF unit_rng_Suc [OF Cons.prems(1)]] by blast
  have "a = fst (updateAmbientParticle time a0 g) \<or>
        a \<in> set (fst (updateAmbientParticles time as dt (\<lambda>n. g (Suc n))))"
    using Cons.prems(2) by (simp only: updateAmbientParticles_Cons fst_conv set_ConsD set_simps insert_iff)
  then show ?case using hd tl by blast
qed

lemma updateAmbientParticles_length:
  "length (fst (updateAmbientParticles time as dt g)) = length as"
  by (induction as arbitrary: g) (simp_all only: updateAmbientParticles.simps(1) updateAmbientParticles_Cons fst_conv list.size)

lemma update_beings_length: "length (fst (update_beings time bs dt g)) = length bs"
  by (induction bs arbitrary: g) (simp_all only: update_beings.simps(1) update_beings_Cons fst_conv list.size)

lemma update_beings_rng: "snd (update_beings time bs dt g) = (\<lambda>n. g (n + length bs))"
proof (induction bs arbitrary: g)
  case Nil
  show ?case by simp
next
  case (Cons b bs)
  show ?case
    using Cons.IH [of "\<lambda>n. g (Suc n)"] by (simp only: update_beings_Cons snd_conv) simp
qed

lemma updateAmbientParticles_rng:
  "snd (updateAmbientParticles time as dt g) = (\<lambda>n. g (n + length as))"
proof (induction as arbitrary: g)
  case Nil
  show ?case by simp
next
  case (Cons a as)
  show ?case
    using Cons.IH [of "\<lambda>n. g (Suc n)"] by (simp only: updateAmbientParticles_Cons snd_conv) simp
qed

lemma update_beings_nth:
  "i < length bs \<Longrightarrow>
     fst (update_beings time bs dt g) ! i = fst (updateBeing time (bs ! i) dt (\<lambda>n. g (n + i)))"
proof (induction bs arbitrary: g i)
  case Nil
  then show ?case by simp
next
  case (Cons b bs)
  show ?case
  proof (cases i)
    case 0
    then show ?thesis by (simp only: update_beings_Cons fst_conv) simp
  next
    case (Suc j)
    then have "j < length bs" using Cons.prems by simp
    from Cons.IH [OF this, of "\<lambda>n. g (Suc n)"] show ?thesis
      using Suc by (simp only: update_beings_Cons fst_conv) simp
  qed
qed

lemma update_fields:
  "e_time (fst (update e dt g)) = e_time e + dt"
  "e_beings (fst (update e dt g)) = fst (update_beings (e_time e + dt) (e_beings e) dt g)"
  "e_ambientParticles (fst (update e dt g)) =
     fst (updateAmbientParticles (e_time e + dt) (e_ambientParticles e) dt (\<lambda>n. g (n + length (e_beings e))))"
  "e_scene (fst (update e dt g)) = e_scene e"
  "e_options (fst (update e dt g)) = e_options e"
  "snd (update e dt g) = (\<lambda>n. g (n + length (e_ambientParticles e) + length (e_beings e)))"
  by (simp_all add: update_def Let_def case_prod_beta update_beings_rng updateAmbientParticles_rng)

lemma updateBeing_particles:
  "particles (fst (updateBeing time b dt g)) =
     map (\<lambda>p. updateParticle time p (userData (fst (updateBeing time b dt g))) dt) (particles b)"
  by (simp add: updateBeing_def Math_random_def Let_def)

lemma target_opacity_upper:
  assumes "0 \<le> originalOpacity p" "originalOpacity p \<le> 1"
      and "b_state bd = Some ''dissolving'' \<longrightarrow>
             0 < t_dissolving (stateTimings (b_options bd)) \<and> 0 \<le> stateTimer bd"
  shows "snd (particle_target p bd) \<le> 1"
proof -
  have "originalOpacity p * (1 - d) \<le> 1" if "0 \<le> d" for d :: real
  proof -
    have "originalOpacity p * (1 - d) \<le> originalOpacity p * 1"
      using assms(1) that by (intro mult_left_mono) simp_all
    then show ?thesis using assms(2) by simp
  qed
  moreover have "0 \<le> dissolveProgress bd" if "b_state bd = Some ''dissolving''"
    using assms(3) that by (simp add: dissolveProgress_def)
  moreover have "originalOpacity p * (3 / 10) \<le> 1" using assms(1,2) by simp
  ultimately show ?thesis
    using assms(2) by (simp add: particle_target_def Let_def)
qed

lemma target_opacity_lower:
  assumes "0 \<le> originalOpacity p"
      and "b_state bd = Some ''dissolving'' \<longrightarrow>
             0 < t_dissolving (stateTimings (b_options bd)) \<and>
             stateTimer bd \<le> t_dissolving (stateTimings (b_options bd))"
  shows "0 \<le> snd (particle_target p bd)"
proof -
  have "dissolveProgress bd \<le> 1" if "b_state bd = Some ''dissolving''"
    using assms(2) that by (simp add: dissolveProgress_def)
  then show ?thesis
    using assms(1) by (simp add: particle_target_def Let_def)
qed

lemma opacity_step_upper:
  fixes a t :: real
  assumes "a \<le> 1" "t \<le> 1"
  shows "a + (t - a) * (5 / 100) \<le> 1"
proof -
  have e: "a + (t - a) * (5 / 100) = (95 / 100) * a + (5 / 100) * t" by (simp add: field_simps)
  show ?thesis unfolding e using assms by linarith
qed

lemma opacity_step_lower:
  fixes a t :: real
  assumes "0 \<le> a" "0 \<le> t"
  shows "0 \<le> a + (t - a) * (5 / 100)"
proof -
  have e: "a + (t - a) * (5 / 100) = (95 / 100) * a + (5 / 100) * t" by (simp add: field_simps)
  show ?thesis unfolding e using assms by simp
qed

lemma updateBeing_opacity_upper:
  assumes pre: "\<forall>p \<in> set (particles b). p_opacity p \<le> 1 \<and> 0 \<le> originalOpacity p \<and> originalOpacity p \<le> 1"
      and win: "b_state (userData (fst (updateBeing time b dt g))) = Some ''dissolving'' \<longrightarrow>
                  0 < t_dissolving (stateTimings (b_options (userData (fst (updateBeing time b dt g))))) \<and>
                  0 \<le> stateTimer (userData (fst (updateBeing time b dt g)))"
      and mem: "q \<in> set (particles (fst (updateBeing time b dt g)))"
  shows "p_opacity q \<le> 1"
proof -
  let ?ud = "userData (fst (updateBeing time b dt g))"
  obtain p where p: "p \<in> set (particles b)" "q = updateParticle time p ?ud dt"
    using mem unfolding updateBeing_particles by auto
  have o: "p_opacity p \<le> 1" "0 \<le> originalOpacity p" "originalOpacity p \<le> 1"
    using pre p(1) by simp_all
  have t: "snd (particle_target p ?ud) \<le> 1"
    using o(2,3) win by (rule target_opacity_upper)
  show ?thesis
    unfolding p(2) updateParticle_opacity using o(1) t by (rule opacity_step_upper)
qed

lemma updateBeing_opacity_lower:
  assumes pre: "\<forall>p \<in> set (particles b). 0 \<le> p_opacity p \<and> 0 \<le> originalOpacity p"
      and win: "b_state (userData (fst (updateBeing time b dt g))) = Some ''dissolving'' \<longrightarrow>
                  0 < t_dissolving (stateTimings (b_options (userData (fst (updateBeing time b dt g))))) \<and>
                  stateTimer (userData (fst (updateBeing time b dt g)))
                    \<le> t_dissolving (stateTimings (b_options (userData (fst (updateBeing time b dt g)))))"
      and mem: "q \<in> set (particles (fst (updateBeing time b dt g)))"
  shows "0 \<le> p_opacity q"
proof -
  let ?ud = "userData (fst (updateBeing time b dt g))"
  obtain p where p: "p \<in> set (particles b)" "q = updateParticle time p ?ud dt"
    using mem unfolding updateBeing_particles by auto
  have o: "0 \<le> p_opacity p" "0 \<le> originalOpacity p"
    using pre p(1) by simp_all
  have t: "0 \<le> snd (particle_target p ?ud)"
    using o(2) win by (rule target_opacity_lower)
  show ?thesis
    unfolding p(2) updateParticle_opacity using o(1) t by (rule opacity_step_lower)
qed

lemma sample_update_being:
  "e_beings (fst (update (sample_engine [b] as) dt g)) ! 0 = fst (updateBeing dt b dt g)"
proof -
  have "e_beings (fst (update (sample_engine [b] as) dt g)) ! 0 =
          fst (updateBeing (e_time (sample_engine [b] as) + dt) (e_beings (sample_engine [b] as) ! 0) dt
                 (\<lambda>n. g (n + 0)))"
    by (simp only: update_fields update_beings_nth) (simp add: sample_engine_def update_beings_nth)
  then show ?thesis by (simp add: sample_engine_def)
qed

lemma advance_state_zero:
  "transformationPhase (advance_state ud 0 r) = transformationPhase ud"
  "stateTimer (advance_state ud 0 r) = stateTimer ud \<or> stateTimer (advance_state ud 0 r) = 0"
  by (simp_all add: advance_state_def Let_def split: option.splits)

lemma update_empty:
  "e_beings e = [] \<Longrightarrow> e_ambientParticles e = [] \<Longrightarrow>
     update e dt g = (e\<lparr> e_time := e_time e + dt \<rparr>, g)"
  by (simp add: update_def Let_def)

section \<open>Lemmas: vectors\<close>

lemma sqrt_square: "0 \<le> a \<Longrightarrow> sqrt (a * a) = a"
  by simp

lemma length_v_scale: "length_v (multiplyScalar v s) = \<bar>s\<bar> * length_v v"
proof -
  have "vx v * s * (vx v * s) + vy v * s * (vy v * s) + vz v * s * (vz v * s)
          = (s * s) * (vx v * vx v + vy v * vy v + vz v * vz v)"
    by (simp add: algebra_simps)
  then show ?thesis
    by (simp add: length_v_def multiplyScalar_def real_sqrt_mult)
qed

lemma length_v_nonneg: "0 \<le> length_v v"
  by (simp add: length_v_def)

lemma length_v_normalize: "length_v v \<noteq> 0 \<Longrightarrow> length_v (normalize_v v) = 1"
  using length_v_nonneg [of v] by (simp add: normalize_v_def length_v_scale)

lemma length_v_ge_x: "\<bar>vx v\<bar> \<le> length_v v"
proof -
  have "sqrt (vx v * vx v) \<le> sqrt (vx v * vx v + vy v * vy v + vz v * vz v)"
    by (rule real_sqrt_le_mono) simp
  then show ?thesis by (simp add: length_v_def)
qed

lemma length_v_sub_commute: "length_v (sub_v a b) = length_v (sub_v b a)"
proof -
  have "(vx a - vx b) * (vx a - vx b) = (vx b - vx a) * (vx b - vx a)"
       "(vy a - vy b) * (vy a - vy b) = (vy b - vy a) * (vy b - vy a)"
       "(vz a - vz b) * (vz a - vz b) = (vz b - vz a) * (vz b - vz a)"
    by (simp_all add: algebra_simps)
  then show ?thesis by (simp add: length_v_def sub_v_def)
qed

lemma sqrt_900: "sqrt 900 = 30"
  using sqrt_square [of 30] by simp

lemma outward_integrate:
  "vx (p_position (integrate 0 (sample_particle (Vector3 30 3 0) (Vector3 1 0 0) (7 / 10))
                     (sample_data ''forming'' 0))) = 769 / 25"
  by (simp add: integrate_def Let_def particle_target_def sample_data_def sample_particle_def
        default_options_def sub_v_def add_v_def multiplyScalar_def length_v_def normalize_v_def
        attraction_def force_of_def sqrt_900)

lemma distance_ge_x: "\<bar>vx a - vx b\<bar> \<le> distanceTo a b"
  using length_v_ge_x [of "sub_v a b"] by (simp add: distanceTo_def sub_v_def)

lemma influence_particle_cases:
  "influence_particle (Vector3 (mx * 2) (my * 2) 0) s p =
     (if distanceTo (p_position p) (Vector3 (20 * mx) (20 * my + 5) 0) < 10
      then p\<lparr> p_velocity := add_v (p_velocity p)
                (multiplyScalar (normalize_v (sub_v (Vector3 (2 * mx) (2 * my) 0) (p_position p))) (s / 100)) \<rparr>
      else p)"
  by (simp add: influence_particle_def Let_def mult.commute)

lemma sqrt_facts: "sqrt 4 = 2" "sqrt 9 = 3" "sqrt 49 = 7" "sqrt 144 = 12" "sqrt 625 = 25"
  using sqrt_square [of 2] sqrt_square [of 3] sqrt_square [of 7] sqrt_square [of 12] sqrt_square [of 25]
  by simp_all

lemma mouse_engine_particles:
  "length (e_beings mouse_engine) = 1"
  "particles (e_beings mouse_engine ! 0) =
     [sample_particle (Vector3 0 12 0) (Vector3 0 0 0) (7 / 10),
      sample_particle (Vector3 0 2 0) (Vector3 0 0 0) (7 / 10),
      sample_particle (Vector3 0 30 0) (Vector3 0 0 0) (7 / 10)]"
  by (simp_all add: mouse_engine_def sample_engine_def sample_being_def)

lemma mouse_distances:
  "distanceTo (p_position (sample_particle (Vector3 0 12 0) v op)) (Vector3 0 5 0) = 7"
  "distanceTo (p_position (sample_particle (Vector3 0 2 0) v op)) (Vector3 0 5 0) = 3"
  "distanceTo (p_position (sample_particle (Vector3 0 30 0) v op)) (Vector3 0 5 0) = 25"
  "distanceTo (p_position (sample_particle (Vector3 0 12 0) v op)) (Vector3 0 0 0) = 12"
  by (simp_all add: distanceTo_def length_v_def sub_v_def sample_particle_def sqrt_facts)

lemma mouse_pulls:
  "multiplyScalar (normalize_v (sub_v (Vector3 0 0 0) (p_position (sample_particle (Vector3 0 12 0) v op)))) (1 / 100)
     = Vector3 0 (- (1 / 100)) 0"
  "multiplyScalar (normalize_v (sub_v (Vector3 0 0 0) (p_position (sample_particle (Vector3 0 2 0) v op)))) (1 / 100)
     = Vector3 0 (- (1 / 100)) 0"
  "multiplyScalar (normalize_v (sub_v (Vector3 0 5 0) (p_position (sample_particle (Vector3 0 2 0) v op)))) (1 / 100)
     = Vector3 0 (1 / 100) 0"
  by (simp_all add: normalize_v_def multiplyScalar_def length_v_def sub_v_def sample_particle_def sqrt_facts)

section \<open>Lemmas: disposal and the ambient field\<close>

lemma dispose_being_visible_mono:
  "m_visible (snd s r) \<Longrightarrow> m_visible (snd (dispose_being b s) r)"
  by (simp add: dispose_being_def Let_def case_prod_beta split: option.splits)

lemma fold_dispose_visible_mono:
  "m_visible (snd s r) \<Longrightarrow> m_visible (snd (fold dispose_being bs s) r)"
  by (induction bs arbitrary: s) (simp_all add: dispose_being_visible_mono)

lemma dispose_being_visible:
  "originalMesh (userData b) = Some r \<Longrightarrow> m_visible (snd (dispose_being b s) r)"
  by (simp add: dispose_being_def Let_def case_prod_beta)

lemma fold_dispose_visible:
  "b \<in> set bs \<Longrightarrow> originalMesh (userData b) = Some r \<Longrightarrow>
     m_visible (snd (fold dispose_being bs s) r)"
proof (induction bs arbitrary: s)
  case Nil
  then show ?case by simp
next
  case (Cons b0 bs)
  show ?case
  proof (cases "b = b0")
    case True
    then have "m_visible (snd (dispose_being b0 s) r)"
      using Cons.prems(2) by (simp add: dispose_being_visible)
    then show ?thesis by (simp add: fold_dispose_visible_mono)
  next
    case False
    then have "b \<in> set bs" using Cons.prems(1) by simp
    then show ?thesis using Cons.IH Cons.prems(2) by simp
  qed
qed

lemma fold_scene_remove:
  "set (fold (\<lambda>x. scene_remove (f x)) xs sc) = set sc - f ` set xs"
  by (induction xs arbitrary: sc) (auto simp: scene_remove_def)

lemma dispose_being_scene:
  "set (fst (dispose_being b s)) = set (fst s) - handle ` set (particles b)"
  by (simp add: dispose_being_def Let_def case_prod_beta fold_scene_remove)

lemma fold_dispose_scene:
  "set (fst (fold dispose_being bs s)) = set (fst s) - (\<Union>b \<in> set bs. handle ` set (particles b))"
  by (induction bs arbitrary: s) (auto simp: dispose_being_scene)

lemma dispose_fields:
  "e_beings (fst (dispose e h)) = []"
  "e_ambientParticles (fst (dispose e h)) = []"
  "e_time (fst (dispose e h)) = e_time e"
  "e_options (fst (dispose e h)) = e_options e"
  "snd (dispose e h) = snd (fold dispose_being (e_beings e) (e_scene e, h))"
  "e_scene (fst (dispose e h)) =
     fold (\<lambda>a. scene_remove (AmbientParticle (a_id a))) (e_ambientParticles e)
       (fst (fold dispose_being (e_beings e) (e_scene e, h)))"
  by (simp_all add: dispose_def Let_def case_prod_beta)

lemma dispose_twice: "dispose (fst (dispose e h)) (snd (dispose e h)) = dispose e h"
  by (simp add: dispose_def Let_def case_prod_beta)

lemma applyMouseInfluence_empty: "e_beings e = [] \<Longrightarrow> applyMouseInfluence e mx my s = e"
  by (simp add: applyMouseInfluence_def Let_def)

lemma ambient_wrap_fields:
  "a_velocity (ambient_wrap a) = a_velocity a"
  "a_drift (ambient_wrap a) = a_drift a"
  "a_opacity (ambient_wrap a) = a_opacity a"
  "a_id (ambient_wrap a) = a_id a"
  "a_position (ambient_wrap a) = wrap_position (a_position a)"
  by (simp_all add: ambient_wrap_def)

lemma updateAmbientParticle_fields:
  "a_position (fst (updateAmbientParticle time a g)) = a_position (ambient_wrap (ambient_move a))"
  "a_velocity (fst (updateAmbientParticle time a g)) = a_velocity (ambient_move a)"
  by (simp_all add: updateAmbientParticle_def ambient_pulse_def Math_random_def Let_def ambient_wrap_def)

section \<open>Lemmas: a run from conversion to a negative opacity\<close>

lemma updateParticle_originalOpacity:
  "originalOpacity (updateParticle time p bd dt) = originalOpacity p"
  by (simp add: updateParticle_def containment_fields integrate_fields)

text \<open>What one frame does to the opacity of the only particle of a being.\<close>

lemma single_particle_frame:
  assumes "particles b = [p]"
  shows "\<exists>q. particles (fst (updateBeing time b dt g)) = [q] \<and>
             originalOpacity q = originalOpacity p \<and>
             p_opacity q = p_opacity p +
               (snd (particle_target p (advance_state (userData b) dt (g 0))) - p_opacity p) * (5 / 100)"
  using assms
  by (simp add: updateBeing_particles updateBeing_userData updateParticle_opacity
        updateParticle_originalOpacity)

lemma snd_particle_target:
  assumes "lifecycle_state (b_state bd)"
  shows "snd (particle_target p bd) =
           (if b_state bd = Some ''dissolving'' then originalOpacity p * (1 - dissolveProgress bd)
            else if b_state bd = Some ''scattered'' then originalOpacity p * (3 / 10)
            else originalOpacity p)"
  using assms by (rule lifecycle_cases) (simp_all add: particle_target_def Let_def)

lemma timing_of_tenths:
  "lifecycle_state s \<Longrightarrow> timing_of tenths s = Some (1 / 10)"
  by (erule lifecycle_cases) (simp_all add: timing_of_def tenths_def)

lemma shape_frame:
  assumes sh: "shape e s t op" and ls: "lifecycle_state (Some s)"
  shows "shape (fst (update e dt g)) (fst (frame_state s t dt (g 0))) (snd (frame_state s t dt (g 0)))
           (frame_opacity (frame_state s t dt (g 0)) op) \<and>
         lifecycle_state (Some (fst (frame_state s t dt (g 0)))) \<and>
         snd (update e dt g) = (\<lambda>n. g (Suc n))"
proof -
  obtain b p where e: "e_beings e = [b]" "e_ambientParticles e = []" "particles b = [p]"
    and ud: "b_state (userData b) = Some s" "stateTimer (userData b) = t"
            "states (b_options (userData b)) = default_states"
            "stateTimings (b_options (userData b)) = tenths"
    and po: "p_opacity p = op" "originalOpacity p = 7 / 10"
    using sh unfolding shape_def by blast
  let ?b' = "fst (updateBeing (e_time e + dt) b dt g)"
  let ?ud' = "advance_state (userData b) dt (g 0)"
  have l0: "lifecycle_state (b_state (userData b))" using ls ud(1) by simp
  obtain nominal where n:
    "timing_of (stateTimings (b_options (userData b))) (b_state (userData b)) = Some nominal"
    "if stateTimer (userData b) + dt > nominal + g 0 * 2
     then b_state ?ud' = map_option cycle_successor (b_state (userData b)) \<and> stateTimer ?ud' = 0
     else b_state ?ud' = b_state (userData b) \<and> stateTimer ?ud' = stateTimer (userData b) + dt"
    using advance_state_cases [OF ud(3) l0, where dt = dt and r = "g 0"] by blast
  have nom: "nominal = 1 / 10" using n(1) timing_of_tenths [OF l0] ud(4) by simp
  have st: "b_state ?ud' = Some (fst (frame_state s t dt (g 0)))"
           "stateTimer ?ud' = snd (frame_state s t dt (g 0))"
    using n(2) by (simp_all add: nom ud(1,2) frame_state_def split: if_splits)
  have l1: "lifecycle_state (b_state ?ud')"
    using n(2) l0 lifecycle_successor [OF l0] by (simp split: if_splits)
  have op': "b_options ?ud' = b_options (userData b)" by (rule advance_state_options)
  have dp: "dissolveProgress ?ud' = snd (frame_state s t dt (g 0)) / (1 / 10)"
    by (simp add: dissolveProgress_def st(2) op' ud(4) tenths_def)
  obtain q where q: "particles ?b' = [q]" "originalOpacity q = originalOpacity p"
      "p_opacity q = p_opacity p + (snd (particle_target p ?ud') - p_opacity p) * (5 / 100)"
    using single_particle_frame [OF e(3), of "e_time e + dt" dt g] by blast
  have tgt: "snd (particle_target p ?ud') =
               (if fst (frame_state s t dt (g 0)) = ''dissolving''
                then (7 / 10) * (1 - snd (frame_state s t dt (g 0)) / (1 / 10))
                else if fst (frame_state s t dt (g 0)) = ''scattered'' then (7 / 10) * (3 / 10)
                else 7 / 10)"
    unfolding snd_particle_target [OF l1] by (simp add: st(1) dp po(2))
  have qo: "p_opacity q = frame_opacity (frame_state s t dt (g 0)) op"
    unfolding q(3) tgt by (simp add: frame_opacity_def po(1))
  have bs: "e_beings (fst (update e dt g)) = [?b']"
    by (simp add: update_fields e(1))
  have as: "e_ambientParticles (fst (update e dt g)) = []"
    by (simp add: update_fields e(2))
  have "shape (fst (update e dt g)) (fst (frame_state s t dt (g 0))) (snd (frame_state s t dt (g 0)))
          (frame_opacity (frame_state s t dt (g 0)) op)"
    unfolding shape_def
    using bs as q(1) qo q(2) po(2) st ud(3,4) by (simp add: updateBeing_userData op')
  moreover have "lifecycle_state (Some (fst (frame_state s t dt (g 0))))"
    using l1 st(1) by simp
  moreover have "snd (update e dt g) = (\<lambda>n. g (Suc n))"
    by (simp add: update_fields e)
  ultimately show ?thesis by blast
qed

lemma jitter_from_next: "(\<lambda>n. jitter_from k (Suc n)) = jitter_from (Suc k)"
  by (simp add: jitter_from_def)

lemma jitter_from_head: "jitter_from k 0 = (if k < 10 then 0 else 9 / 10)"
  by (simp add: jitter_from_def late_jitter_def)

lemma converted_shape:
  "\<exists>b e h. converted = Inr (b, e, h, jitter_from 8) \<and> shape e ''forming'' 0 (7 / 10)"
proof -
  have opts: "particleCount (spread (e_options (new_system [] no_options)) short_cycle) = 1"
             "states (spread (e_options (new_system [] no_options)) short_cycle) = default_states"
             "stateTimings (spread (e_options (new_system [] no_options)) short_cycle) = tenths"
    by (simp_all add: spread_def or_else_def short_cycle_def no_options_def new_system_def
          default_options_def tenths_def)
  have st: "stride_loop [Vector3 0 0 0] 1 0 [] = [Vector3 0 0 0]"
    by (simp add: stride_step_def)
  have fl: "fill_loop 1 [Vector3 0 0 0] g = Inr ([Vector3 0 0 0], g)" for g
    by (subst fill_loop.simps) simp
  have ex: "extractPointsFromMesh (Some (vertex_heap 0)) 1 g = Inr ([Vector3 0 0 0], g)" for g
    by (simp add: extractPointsFromMesh_def vertex_heap_def st fl)
  have cp: "\<exists>p. createParticle pt pos o' (\<lambda>n. late_jitter (Suc (Suc n))) = (p, \<lambda>n. late_jitter (n + 8)) \<and>
              p_opacity p = 7 / 10 \<and> originalOpacity p = 7 / 10" for pt pos o'
    by (simp add: createParticle_def Math_random_def Let_def late_jitter_def)
  let ?o = "spread (e_options (new_system [] no_options)) short_cycle"
  obtain p where p:
    "createParticle (Vector3 0 0 0) (Vector3 0 0 0) ?o (\<lambda>n. late_jitter (Suc (Suc n)))
       = (p, \<lambda>n. late_jitter (n + 8))"
    "p_opacity p = 7 / 10" "originalOpacity p = 7 / 10"
    using cp by blast
  have mk: "create_particles [Vector3 0 0 0] 0 (Vector3 0 0 0) ?o 0 [] (\<lambda>n. late_jitter (Suc (Suc n)))
              = ([p\<lparr> beingIndex := 0, particleIndex := 0 \<rparr>],
                 scene_add (handle (p\<lparr> beingIndex := 0, particleIndex := 0 \<rparr>)) [],
                 \<lambda>n. late_jitter (n + 8))"
    by (simp add: p(1) Let_def)
  have nb: "e_beings (new_system [] no_options) = []" "e_scene (new_system [] no_options) = []"
           "e_ambientParticles (new_system [] no_options) = []"
    by (simp_all add: new_system_def)
  show ?thesis
    unfolding converted_def convertToParticleBeing_def shape_def jitter_from_def
    by (simp add: Math_random_def Let_def opts ex mk nb p(2,3) del: create_particles.simps)
qed

text \<open>
  After the conversion and five frames of 0.5 s the being is in Dissolving with timer 1.5
  (nominal duration 0.1, jitter 1.8) and its particle has the opacity \<open>-5047/16000\<close>.
\<close>

lemma negative_opacity_reachable:
  "\<exists>b e h g. converted = Inr (b, e, h, g) \<and>
     shape (fst (run_updates e [1 / 2, 1 / 2, 1 / 2, 1 / 2, 1 / 2] g)) ''dissolving'' (3 / 2) (- (5047 / 16000))"
proof -
  obtain b e h where c: "converted = Inr (b, e, h, jitter_from 8)"
    and s0: "shape e ''forming'' 0 (7 / 10)"
    using converted_shape by blast
  have l0: "lifecycle_state (Some ''forming'')" by (simp add: lifecycle_state_def)
  let ?e1 = "fst (update e (1 / 2) (jitter_from 8))"
  have f1: "frame_state ''forming'' 0 (1 / 2) (jitter_from 8 0) = (''stable'', 0)"
    by (simp add: frame_state_def jitter_from_head cycle_successor_def)
  have s1: "shape ?e1 ''stable'' 0 (7 / 10)" "lifecycle_state (Some ''stable'')"
           "snd (update e (1 / 2) (jitter_from 8)) = jitter_from 9"
    using shape_frame [OF s0 l0, of "1 / 2" "jitter_from 8"] unfolding f1 jitter_from_next
    by (simp_all add: frame_opacity_def)
  let ?e2 = "fst (update ?e1 (1 / 2) (jitter_from 9))"
  have f2: "frame_state ''stable'' 0 (1 / 2) (jitter_from 9 0) = (''dissolving'', 0)"
    by (simp add: frame_state_def jitter_from_head cycle_successor_def)
  have s2: "shape ?e2 ''dissolving'' 0 (7 / 10)" "lifecycle_state (Some ''dissolving'')"
           "snd (update ?e1 (1 / 2) (jitter_from 9)) = jitter_from 10"
    using shape_frame [OF s1(1,2), of "1 / 2" "jitter_from 9"] unfolding f2 jitter_from_next
    by (simp_all add: frame_opacity_def)
  let ?e3 = "fst (update ?e2 (1 / 2) (jitter_from 10))"
  have f3: "frame_state ''dissolving'' 0 (1 / 2) (jitter_from 10 0) = (''dissolving'', 1 / 2)"
    by (simp add: frame_state_def jitter_from_head)
  have s3: "shape ?e3 ''dissolving'' (1 / 2) (21 / 40)"
           "snd (update ?e2 (1 / 2) (jitter_from 10)) = jitter_from 11"
    using shape_frame [OF s2(1,2), of "1 / 2" "jitter_from 10"] unfolding f3 jitter_from_next
    by (simp_all add: frame_opacity_def)
  let ?e4 = "fst (update ?e3 (1 / 2) (jitter_from 11))"
  have f4: "frame_state ''dissolving'' (1 / 2) (1 / 2) (jitter_from 11 0) = (''dissolving'', 1)"
    by (simp add: frame_state_def jitter_from_head)
  have s4: "shape ?e4 ''dissolving'' 1 (147 / 800)"
           "snd (update ?e3 (1 / 2) (jitter_from 11)) = jitter_from 12"
    using shape_frame [OF s3(1) s2(2), of "1 / 2" "jitter_from 11"] unfolding f4 jitter_from_next
    by (simp_all add: frame_opacity_def)
  let ?e5 = "fst (update ?e4 (1 / 2) (jitter_from 12))"
  have f5: "frame_state ''dissolving'' 1 (1 / 2) (jitter_from 12 0) = (''dissolving'', 3 / 2)"
    by (simp add: frame_state_def jitter_from_head)
  have s5: "shape ?e5 ''dissolving'' (3 / 2) (- (5047 / 16000))"
    using shape_frame [OF s4(1) s2(2), of "1 / 2" "jitter_from 12"] unfolding f5
    by (simp_all add: frame_opacity_def)
  have "fst (run_updates e [1 / 2, 1 / 2, 1 / 2, 1 / 2, 1 / 2] (jitter_from 8)) = ?e5"
    by (simp add: s1(3) s2(3) s3(2) s4(2))
  then show ?thesis using c s5 by metis
qed

lemma two_state_being:
  "\<exists>ps e h g. two_state_conversion =
      Inr (\<lparr> particles = ps,
             userData = \<lparr> b_index = 0, transformationPhase = 0, transformationSpeed = 3 / 10,
                          b_state = Some ''forming'', stateTimer = 0, basePosition = Vector3 0 0 0,
                          originalMesh = Some 0,
                          b_options = default_options\<lparr> particleCount := 1,
                                                       states := [''forming'', ''scattered''] \<rparr> \<rparr> \<rparr>,
           e, h, g)"
proof -
  have opts: "spread (e_options (new_system [] no_options)) two_states
                = default_options\<lparr> particleCount := 1, states := [''forming'', ''scattered''] \<rparr>"
    by (simp add: spread_def or_else_def two_states_def no_options_def new_system_def default_options_def)
  have st: "stride_loop [Vector3 0 0 0] 1 0 [] = [Vector3 0 0 0]"
    by (simp add: stride_step_def)
  have fl: "fill_loop 1 [Vector3 0 0 0] g = Inr ([Vector3 0 0 0], g)" for g
    by (subst fill_loop.simps) simp
  have ex: "extractPointsFromMesh (Some (vertex_heap 0)) 1 g = Inr ([Vector3 0 0 0], g)" for g
    by (simp add: extractPointsFromMesh_def vertex_heap_def st fl)
  have pc: "particleCount (default_options\<lparr> particleCount := 1, states := [''forming'', ''scattered''] \<rparr>) = 1"
           "speedMultiplier (default_options\<lparr> particleCount := 1, states := [''forming'', ''scattered''] \<rparr>) = 1"
    by (simp_all add: default_options_def)
  show ?thesis
    unfolding two_state_conversion_def convertToParticleBeing_def opts
    by (simp add: Math_random_def Let_def ex pc case_prod_beta new_system_def del: create_particles.simps)
qed

section \<open>The claims\<close>

text \<open>
  C1.  The claim: a conversion with no source and \<^verbatim>\<open>particleCount = 64\<close> makes a being of
  exactly 64 particles, each from the procedural body generator with its formed target,
  in the state Forming.  The code makes 65: head 9, torso 22, arms 16 leave 17 for the
  legs, and each of the two leg loops runs while \<^verbatim>\<open>i < 17 / 2\<close>, nine times.  Each
  particle's target is a generated point moved to the anchor (and up by 2), and the state
  is \<^verbatim>\<open>'forming'\<close>; only the number differs from the claim.
\<close>

theorem C1_convert_64_yields_65_particles:
  "\<exists>b e' g'.
     convertToParticleBeing e h None pos (no_options\<lparr> o_particleCount := Some 64 \<rparr>) g
       = Inr (b, e', h, g') \<and>
     length (particles b) = 65 \<and>
     map targetPosition (particles b) =
       map (\<lambda>pt. Vector3 (vx pos + vx pt) (vy pos + vy pt + 2) (vz pos + vz pt))
         (fst (generateHumanSilhouettePoints 64 ''adult'' (\<lambda>n. g (Suc (Suc n))))) \<and>
     b_state (userData b) = Some ''forming''"
proof -
  have pc: "particleCount (spread (e_options e) (no_options\<lparr> o_particleCount := Some 64 \<rparr>)) = 64"
    by (simp add: spread_def or_else_def no_options_def)
  have len: "length (fst (generateHumanSilhouettePoints 64 ''adult'' (\<lambda>n. g (Suc (Suc n))))) = 65"
    by (simp add: generate_length Let_def)
  show ?thesis
    by (simp add: convert_no_source Let_def pc create_particles_targets create_particles_length len)
qed

text \<open>
  C2.  The claim: every being, from Forming on, passes through exactly the cycle Forming,
  Stable, Dissolving, Scattered, Forming, ..., the timer is reset at each transition, and a
  transition happens only past the nominal duration plus a jitter in \<open>[0, 2]\<close>.  The code
  takes the next state from the list \<^verbatim>\<open>options.states\<close>, one of the ``default options that
  can be overridden'': a being converted with \<^verbatim>\<open>states: ['forming', 'scattered']\<close> goes
  from Forming to Scattered (the counterexample).  What holds is the claim for every being
  whose state list is the library's own: if its state is one of the four (as every being
  is created, and as this theorem preserves), one call of \<^verbatim>\<open>updateBeing\<close> with random
  numbers in \<open>[0, 1)\<close> draws a jitter \<open>g 0 * 2\<close> in \<open>[0, 2]\<close>; if the timer, advanced by
  \<open>dt\<close>, exceeds the state's nominal duration plus the jitter, the state becomes its
  successor in the cycle and the timer is 0; otherwise the state stays and the timer has
  advanced by \<open>dt\<close>.  So no state is skipped, none is entered backwards, and a transition
  happens only past the nominal duration plus jitter.  Lemma \<open>run_being_states\<close> above
  says the same of the whole sequence of states under any sequence of frames.
\<close>

theorem C2_state_cycle:
  assumes "states (b_options (userData b)) = default_states"
      and "lifecycle_state (b_state (userData b))"
      and "unit_rng g"
  shows "\<exists>nominal jitter.
           timing_of (stateTimings (b_options (userData b))) (b_state (userData b)) = Some nominal \<and>
           jitter = g 0 * 2 \<and> 0 \<le> jitter \<and> jitter \<le> 2 \<and>
           (if stateTimer (userData b) + dt > nominal + jitter
            then b_state (userData (fst (updateBeing time b dt g)))
                   = map_option cycle_successor (b_state (userData b)) \<and>
                 stateTimer (userData (fst (updateBeing time b dt g))) = 0
            else b_state (userData (fst (updateBeing time b dt g))) = b_state (userData b) \<and>
                 stateTimer (userData (fst (updateBeing time b dt g))) = stateTimer (userData b) + dt) \<and>
           states (b_options (userData (fst (updateBeing time b dt g)))) = default_states \<and>
           lifecycle_state (b_state (userData (fst (updateBeing time b dt g)))) \<and>
           unit_rng (snd (updateBeing time b dt g))"
proof -
  obtain nominal where n:
    "timing_of (stateTimings (b_options (userData b))) (b_state (userData b)) = Some nominal"
    "if stateTimer (userData b) + dt > nominal + g 0 * 2
     then b_state (advance_state (userData b) dt (g 0)) = map_option cycle_successor (b_state (userData b)) \<and>
          stateTimer (advance_state (userData b) dt (g 0)) = 0
     else b_state (advance_state (userData b) dt (g 0)) = b_state (userData b) \<and>
          stateTimer (advance_state (userData b) dt (g 0)) = stateTimer (userData b) + dt"
    using advance_state_cases [OF assms(1,2), where dt = dt and r = "g 0"] by blast
  have j: "0 \<le> g 0 * 2" "g 0 * 2 \<le> 2" using assms(3) by (simp_all add: unit_rng_def less_imp_le)
  have l: "lifecycle_state (b_state (advance_state (userData b) dt (g 0)))"
    using n(2) assms(2) lifecycle_successor [OF assms(2)] by (simp split: if_splits)
  have u: "unit_rng (\<lambda>n. g (Suc n))" using assms(3) by (simp add: unit_rng_def)
  show ?thesis
    using n j l u assms(1) by (simp add: updateBeing_userData updateBeing_rng advance_state_options)
qed

text \<open>
  A being in Forming with timer 3.9 and nominal duration 4: a frame of 0.2 s with jitter 0
  takes it to Stable with timer 0.
\<close>

theorem C2_state_cycle_witness:
  "states (b_options (userData (sample_being ''forming'' (39 / 10) []))) = default_states \<and>
   lifecycle_state (b_state (userData (sample_being ''forming'' (39 / 10) []))) \<and>
   unit_rng (\<lambda>n. 0) \<and>
   b_state (userData (fst (updateBeing 0 (sample_being ''forming'' (39 / 10) []) (1 / 5) (\<lambda>n. 0))))
     = Some ''stable'' \<and>
   stateTimer (userData (fst (updateBeing 0 (sample_being ''forming'' (39 / 10) []) (1 / 5) (\<lambda>n. 0)))) = 0"
proof -
  let ?b = "sample_being ''forming'' (39 / 10) []"
  let ?b' = "fst (updateBeing 0 ?b (1 / 5) (\<lambda>n. 0))"
  have a: "states (b_options (userData ?b)) = default_states"
    by (simp add: sample_being_def sample_data_def default_options_def)
  have b: "lifecycle_state (b_state (userData ?b))"
    by (simp add: sample_being_def sample_data_def lifecycle_state_def)
  have c: "unit_rng (\<lambda>n. 0)" by (simp add: unit_rng_def)
  have t: "timing_of (stateTimings (b_options (userData ?b))) (b_state (userData ?b)) = Some 4"
    by (simp add: sample_being_def sample_data_def default_options_def timing_of_def)
  have s: "stateTimer (userData ?b) = 39 / 10" "b_state (userData ?b) = Some ''forming''"
    by (simp_all add: sample_being_def sample_data_def)
  obtain nominal jitter where
    n: "timing_of (stateTimings (b_options (userData ?b))) (b_state (userData ?b)) = Some nominal"
    and j: "jitter = (\<lambda>n::nat. 0::real) 0 * 2"
    and step: "if stateTimer (userData ?b) + 1 / 5 > nominal + jitter
               then b_state (userData ?b') = map_option cycle_successor (b_state (userData ?b)) \<and>
                    stateTimer (userData ?b') = 0
               else b_state (userData ?b') = b_state (userData ?b) \<and>
                    stateTimer (userData ?b') = stateTimer (userData ?b) + 1 / 5"
    using C2_state_cycle [OF a b c, of "1 / 5" 0] by blast
  have "nominal = 4" using n t by simp
  moreover have "jitter = 0" using j by simp
  ultimately have "stateTimer (userData ?b) + 1 / 5 > nominal + jitter" using s(1) by simp
  with step have "b_state (userData ?b') = map_option cycle_successor (b_state (userData ?b)) \<and>
                  stateTimer (userData ?b') = 0"
    by (simp only: if_True)
  then show ?thesis
    using a b c by (simp add: s(2) cycle_successor_def)
qed

text \<open>
  The conversion with \<^verbatim>\<open>states: ['forming', 'scattered']\<close> succeeds and makes a being in
  Forming; a frame of 5 s (nominal duration 4, jitter 0) takes it to Scattered, where the
  cycle has Stable.
\<close>

theorem C2_custom_states_counterexample:
  "\<not> isl two_state_conversion \<and>
   b_state (userData (fst (projr two_state_conversion))) = Some ''forming'' \<and>
   b_state (userData (fst (updateBeing 5 (fst (projr two_state_conversion)) 5 (\<lambda>n. 0)))) = Some ''scattered'' \<and>
   cycle_successor ''forming'' = ''stable''"
proof -
  obtain ps e h g where c: "two_state_conversion =
      Inr (\<lparr> particles = ps,
             userData = \<lparr> b_index = 0, transformationPhase = 0, transformationSpeed = 3 / 10,
                          b_state = Some ''forming'', stateTimer = 0, basePosition = Vector3 0 0 0,
                          originalMesh = Some 0,
                          b_options = default_options\<lparr> particleCount := 1,
                                                       states := [''forming'', ''scattered''] \<rparr> \<rparr> \<rparr>,
           e, h, g)"
    using two_state_being by blast
  show ?thesis
    unfolding c
    by (simp add: updateBeing_userData advance_state_def Let_def default_options_def timing_of_def
          next_state_def indexOf_def cycle_successor_def)
qed

text \<open>
  C3.  The claim: for every source and every count the sampler never throws, a missing or
  invalid source resolves to the procedural generator, and a count \<open>\<le> 0\<close> is clamped to
  1, so that the result is never empty.  The code has no clamp: for a count \<open>\<le> 0\<close> every
  loop of the generator and of the vertex walk stops at once and the result is the empty
  sequence (the counterexample below, at count 0).  What holds, for every source that is
  not a buffer geometry without a position attribute (\<open>extract_missing_attribute\<close>: that
  one raises), and every random sequence in \<open>[0, 1)\<close>: the sampler returns; its result is
  empty exactly when the count is \<open>\<le> 0\<close>; and a source without vertices (no mesh, no
  geometry, a geometry that is not a buffer geometry, an empty buffer) gives exactly the
  generator's points.
\<close>

theorem C3_sampler_total:
  assumes "unit_rng g" and "readable_source m"
  shows "(\<exists>pts g'. extractPointsFromMesh m count g = Inr (pts, g') \<and> (pts = [] \<longleftrightarrow> count \<le> 0)) \<and>
         (\<not> has_vertices m \<longrightarrow>
            extractPointsFromMesh m count g = Inr (generateHumanSilhouettePoints count ''adult'' g))"
  using extract_total [OF assms] extract_fallback [OF assms(2)] by blast

text \<open>The theorem at the missing source, with count 3.\<close>

theorem C3_sampler_total_witness:
  "unit_rng (\<lambda>n. 1 / 2) \<and> readable_source None \<and> \<not> has_vertices None \<and>
   (\<exists>pts g'. extractPointsFromMesh None 3 (\<lambda>n. 1 / 2) = Inr (pts, g') \<and> pts \<noteq> []) \<and>
   extractPointsFromMesh None 3 (\<lambda>n. 1 / 2) = Inr (generateHumanSilhouettePoints 3 ''adult'' (\<lambda>n. 1 / 2))"
proof -
  have u: "unit_rng (\<lambda>n. 1 / 2)" by (simp add: unit_rng_def)
  have r: "readable_source None" by (simp add: readable_source_def)
  have n: "\<not> has_vertices None" by (simp add: has_vertices_def)
  have "\<not> (3::int) \<le> 0" by simp
  with C3_sampler_total [OF u r, of 3] n u r show ?thesis by blast
qed

text \<open>Count 0 and no source: the sampler returns no point at all.\<close>

theorem C3_count_zero_counterexample:
  "extractPointsFromMesh None 0 (\<lambda>n. 0) = Inr ([], \<lambda>n. 0)"
  by (simp add: extract_no_source generateHumanSilhouettePoints_def Let_def for_loop_stop for_loop_step)




text \<open>
  C5.  The claim: after every \<^verbatim>\<open>update\<close> the opacity of every being's particle and of
  every ambient particle is in \<open>[0, 1]\<close>.  For ambient particles it is: the opacity is set
  to \<open>(0.1 + 0.2 r) (1 + 0.1 sin ...)\<close>.  For a being's particle the code moves the opacity
  a twentieth of the way to its target and bounds nothing; in Dissolving, past the nominal
  duration, the target is negative (C4) and the opacity follows it below 0 (the
  counterexample: opacity 0.01 becomes \<open>-13/6000\<close>).  Only the lower bound is lost there.
  What holds for the particles of a being, with base opacities in \<open>[0, 1]\<close> and, if the
  being is in Dissolving after the frame's state step, a positive dissolving duration:
  opacities at most 1 before the frame are at most 1 after it, provided the timer of a
  dissolving being is not negative; and opacities at least 0 before the frame are at
  least 0 after it, provided the timer of a dissolving being is not beyond the nominal
  duration.  Lemma \<open>negative_opacity_reachable\<close> above reaches a negative opacity from
  \<^verbatim>\<open>convertToParticleBeing\<close> by five calls of \<^verbatim>\<open>update\<close>.
\<close>

theorem C5_opacity_bounds:
  assumes "unit_rng g"
  shows "(\<forall>a \<in> set (e_ambientParticles (fst (update e dt g))). 0 \<le> a_opacity a \<and> a_opacity a \<le> 1) \<and>
         (\<forall>i < length (e_beings e).
            ((\<forall>p \<in> set (particles (e_beings e ! i)).
                 p_opacity p \<le> 1 \<and> 0 \<le> originalOpacity p \<and> originalOpacity p \<le> 1) \<and>
             (b_state (userData (e_beings (fst (update e dt g)) ! i)) = Some ''dissolving'' \<longrightarrow>
                 0 < t_dissolving (stateTimings (b_options (userData (e_beings (fst (update e dt g)) ! i)))) \<and>
                 0 \<le> stateTimer (userData (e_beings (fst (update e dt g)) ! i)))
             \<longrightarrow> (\<forall>q \<in> set (particles (e_beings (fst (update e dt g)) ! i)). p_opacity q \<le> 1)) \<and>
            ((\<forall>p \<in> set (particles (e_beings e ! i)). 0 \<le> p_opacity p \<and> 0 \<le> originalOpacity p) \<and>
             (b_state (userData (e_beings (fst (update e dt g)) ! i)) = Some ''dissolving'' \<longrightarrow>
                 0 < t_dissolving (stateTimings (b_options (userData (e_beings (fst (update e dt g)) ! i)))) \<and>
                 stateTimer (userData (e_beings (fst (update e dt g)) ! i))
                   \<le> t_dissolving (stateTimings (b_options (userData (e_beings (fst (update e dt g)) ! i)))))
             \<longrightarrow> (\<forall>q \<in> set (particles (e_beings (fst (update e dt g)) ! i)). 0 \<le> p_opacity q)))"
proof (intro conjI ballI allI impI)
  fix a
  assume "a \<in> set (e_ambientParticles (fst (update e dt g)))"
  then have "a \<in> set (fst (updateAmbientParticles (e_time e + dt) (e_ambientParticles e) dt
                         (\<lambda>n. g (n + length (e_beings e)))))"
    by (simp only: update_fields)
  moreover have "unit_rng (\<lambda>n. g (n + length (e_beings e)))"
    using assms by (rule unit_rng_shift)
  ultimately have "0 \<le> a_opacity a \<and> a_opacity a \<le> 1"
    using updateAmbientParticles_opacity by blast
  then show "0 \<le> a_opacity a" "a_opacity a \<le> 1" by simp_all
next
  fix i q
  assume i: "i < length (e_beings e)"
    and h: "(\<forall>p \<in> set (particles (e_beings e ! i)).
                 p_opacity p \<le> 1 \<and> 0 \<le> originalOpacity p \<and> originalOpacity p \<le> 1) \<and>
             (b_state (userData (e_beings (fst (update e dt g)) ! i)) = Some ''dissolving'' \<longrightarrow>
                 0 < t_dissolving (stateTimings (b_options (userData (e_beings (fst (update e dt g)) ! i)))) \<and>
                 0 \<le> stateTimer (userData (e_beings (fst (update e dt g)) ! i)))"
    and q: "q \<in> set (particles (e_beings (fst (update e dt g)) ! i))"
  have n: "e_beings (fst (update e dt g)) ! i =
             fst (updateBeing (e_time e + dt) (e_beings e ! i) dt (\<lambda>n. g (n + i)))"
    using i by (simp only: update_fields update_beings_nth)
  show "p_opacity q \<le> 1"
    using h q unfolding n by (intro updateBeing_opacity_upper) blast+
next
  fix i q
  assume i: "i < length (e_beings e)"
    and h: "(\<forall>p \<in> set (particles (e_beings e ! i)). 0 \<le> p_opacity p \<and> 0 \<le> originalOpacity p) \<and>
             (b_state (userData (e_beings (fst (update e dt g)) ! i)) = Some ''dissolving'' \<longrightarrow>
                 0 < t_dissolving (stateTimings (b_options (userData (e_beings (fst (update e dt g)) ! i)))) \<and>
                 stateTimer (userData (e_beings (fst (update e dt g)) ! i))
                   \<le> t_dissolving (stateTimings (b_options (userData (e_beings (fst (update e dt g)) ! i)))))"
    and q: "q \<in> set (particles (e_beings (fst (update e dt g)) ! i))"
  have n: "e_beings (fst (update e dt g)) ! i =
             fst (updateBeing (e_time e + dt) (e_beings e ! i) dt (\<lambda>n. g (n + i)))"
    using i by (simp only: update_fields update_beings_nth)
  show "0 \<le> p_opacity q"
    using h q unfolding n by (intro updateBeing_opacity_lower) blast+
qed

text \<open>
  An engine with one being in Dissolving (timer 1 of 3, one particle) and one ambient
  particle, one frame of 0.02 s: all four bounds.
\<close>

theorem C5_opacity_bounds_witness:
  "unit_rng (\<lambda>n. 1 / 2) \<and>
   p_opacity (sample_particle (Vector3 0 3 0) (Vector3 0 0 0) (7 / 10)) = 7 / 10 \<and>
   originalOpacity (sample_particle (Vector3 0 3 0) (Vector3 0 0 0) (7 / 10)) = 7 / 10 \<and>
   b_state (userData (e_beings (fst (update
       (sample_engine [sample_being ''dissolving'' 1 [sample_particle (Vector3 0 3 0) (Vector3 0 0 0) (7 / 10)]]
                      [sample_ambient (Vector3 0 10 0) (Vector3 0 0 0)])
       (1 / 50) (\<lambda>n. 1 / 2))) ! 0)) = Some ''dissolving'' \<and>
   stateTimer (userData (e_beings (fst (update
       (sample_engine [sample_being ''dissolving'' 1 [sample_particle (Vector3 0 3 0) (Vector3 0 0 0) (7 / 10)]]
                      [sample_ambient (Vector3 0 10 0) (Vector3 0 0 0)])
       (1 / 50) (\<lambda>n. 1 / 2))) ! 0)) = 51 / 50 \<and>
   t_dissolving (stateTimings (b_options (userData (e_beings (fst (update
       (sample_engine [sample_being ''dissolving'' 1 [sample_particle (Vector3 0 3 0) (Vector3 0 0 0) (7 / 10)]]
                      [sample_ambient (Vector3 0 10 0) (Vector3 0 0 0)])
       (1 / 50) (\<lambda>n. 1 / 2))) ! 0)))) = 3 \<and>
   0 \<le> a_opacity (e_ambientParticles (fst (update
       (sample_engine [sample_being ''dissolving'' 1 [sample_particle (Vector3 0 3 0) (Vector3 0 0 0) (7 / 10)]]
                      [sample_ambient (Vector3 0 10 0) (Vector3 0 0 0)])
       (1 / 50) (\<lambda>n. 1 / 2))) ! 0) \<and>
   a_opacity (e_ambientParticles (fst (update
       (sample_engine [sample_being ''dissolving'' 1 [sample_particle (Vector3 0 3 0) (Vector3 0 0 0) (7 / 10)]]
                      [sample_ambient (Vector3 0 10 0) (Vector3 0 0 0)])
       (1 / 50) (\<lambda>n. 1 / 2))) ! 0) \<le> 1 \<and>
   0 \<le> p_opacity (particles (e_beings (fst (update
       (sample_engine [sample_being ''dissolving'' 1 [sample_particle (Vector3 0 3 0) (Vector3 0 0 0) (7 / 10)]]
                      [sample_ambient (Vector3 0 10 0) (Vector3 0 0 0)])
       (1 / 50) (\<lambda>n. 1 / 2))) ! 0) ! 0) \<and>
   p_opacity (particles (e_beings (fst (update
       (sample_engine [sample_being ''dissolving'' 1 [sample_particle (Vector3 0 3 0) (Vector3 0 0 0) (7 / 10)]]
                      [sample_ambient (Vector3 0 10 0) (Vector3 0 0 0)])
       (1 / 50) (\<lambda>n. 1 / 2))) ! 0) ! 0) \<le> 1"
proof -
  let ?p = "sample_particle (Vector3 0 3 0) (Vector3 0 0 0) (7 / 10)"
  let ?b = "sample_being ''dissolving'' 1 [?p]"
  let ?e = "sample_engine [?b] [sample_ambient (Vector3 0 10 0) (Vector3 0 0 0)]"
  let ?e' = "fst (update ?e (1 / 50) (\<lambda>n. 1 / 2))"
  have u: "unit_rng (\<lambda>n. 1 / 2)" by (simp add: unit_rng_def)
  have po: "p_opacity ?p = 7 / 10" "originalOpacity ?p = 7 / 10" by (simp_all add: sample_particle_def)
  have ud: "userData (e_beings ?e' ! 0) =
              (sample_data ''dissolving'' (51 / 50))\<lparr> transformationPhase := 3 / 500 \<rparr>"
    by (simp add: sample_update_being updateBeing_userData advance_state_def Let_def sample_being_def
          sample_data_def default_options_def timing_of_def)
  have st: "b_state (userData (e_beings ?e' ! 0)) = Some ''dissolving''"
           "stateTimer (userData (e_beings ?e' ! 0)) = 51 / 50"
           "t_dissolving (stateTimings (b_options (userData (e_beings ?e' ! 0)))) = 3"
    unfolding ud by (simp_all add: sample_data_def default_options_def)
  have la: "0 < length (e_ambientParticles ?e')"
    by (simp add: update_fields updateAmbientParticles_length sample_engine_def)
  have lb: "0 < length (e_beings ?e)" "e_beings ?e ! 0 = ?b" "particles ?b = [?p]"
    by (simp_all add: sample_engine_def sample_being_def)
  have lp: "0 < length (particles (e_beings ?e' ! 0))"
    by (simp add: sample_update_being updateBeing_particles sample_being_def)
  have pre1: "\<forall>p \<in> set (particles (e_beings ?e ! 0)).
                p_opacity p \<le> 1 \<and> 0 \<le> originalOpacity p \<and> originalOpacity p \<le> 1"
    and pre2: "\<forall>p \<in> set (particles (e_beings ?e ! 0)). 0 \<le> p_opacity p \<and> 0 \<le> originalOpacity p"
    by (simp_all add: lb po)
  have w1: "b_state (userData (e_beings ?e' ! 0)) = Some ''dissolving'' \<longrightarrow>
              0 < t_dissolving (stateTimings (b_options (userData (e_beings ?e' ! 0)))) \<and>
              0 \<le> stateTimer (userData (e_beings ?e' ! 0))"
    and w2: "b_state (userData (e_beings ?e' ! 0)) = Some ''dissolving'' \<longrightarrow>
              0 < t_dissolving (stateTimings (b_options (userData (e_beings ?e' ! 0)))) \<and>
              stateTimer (userData (e_beings ?e' ! 0))
                \<le> t_dissolving (stateTimings (b_options (userData (e_beings ?e' ! 0))))"
    by (simp_all add: st)
  note th = C5_opacity_bounds [OF u, of ?e "1 / 50"]
  have amb: "\<forall>a \<in> set (e_ambientParticles ?e'). 0 \<le> a_opacity a \<and> a_opacity a \<le> 1"
    using th by blast
  have up: "\<forall>q \<in> set (particles (e_beings ?e' ! 0)). p_opacity q \<le> 1"
    using th lb(1) pre1 w1 by blast
  have lo: "\<forall>q \<in> set (particles (e_beings ?e' ! 0)). 0 \<le> p_opacity q"
    using th lb(1) pre2 w2 by blast
  have "0 \<le> a_opacity (e_ambientParticles ?e' ! 0) \<and> a_opacity (e_ambientParticles ?e' ! 0) \<le> 1"
    using amb nth_mem [OF la] by blast
  moreover have "0 \<le> p_opacity (particles (e_beings ?e' ! 0) ! 0) \<and>
                 p_opacity (particles (e_beings ?e' ! 0) ! 0) \<le> 1"
    using up lo nth_mem [OF lp] by blast
  ultimately show ?thesis using u po st by blast
qed

text \<open>
  A being in Dissolving, timer 3.9, nominal duration 3, a particle of opacity 0.01 and base
  opacity 0.7; the frame of 0.1 s draws the jitter 1.8, the being stays in Dissolving, the
  opacity target is \<open>-7/30\<close> and the opacity after \<^verbatim>\<open>update\<close> is negative.
\<close>

theorem C5_negative_opacity_counterexample:
  "p_opacity (particles (e_beings (fst (update
       (sample_engine [sample_being ''dissolving'' (39 / 10)
                         [sample_particle (Vector3 0 3 0) (Vector3 0 0 0) (1 / 100)]] [])
       (1 / 10) (\<lambda>n. 9 / 10))) ! 0) ! 0) = - (13 / 6000)"
proof -
  let ?p = "sample_particle (Vector3 0 3 0) (Vector3 0 0 0) (1 / 100)"
  let ?b = "sample_being ''dissolving'' (39 / 10) [?p]"
  have ud: "userData (fst (updateBeing (1 / 10) ?b (1 / 10) (\<lambda>n. 9 / 10))) =
              (sample_data ''dissolving'' 4)\<lparr> transformationPhase := 3 / 100 \<rparr>"
    by (simp add: updateBeing_userData sample_being_def sample_data_def advance_state_def Let_def
          default_options_def timing_of_def)
  have t: "snd (particle_target ?p ((sample_data ''dissolving'' 4)\<lparr> transformationPhase := 3 / 100 \<rparr>))
             = - (7 / 30)"
    by (simp add: sample_data_def dissolveProgress_def default_options_def particle_target_def
          sample_particle_def)
  have "particles (fst (updateBeing (1 / 10) ?b (1 / 10) (\<lambda>n. 9 / 10))) ! 0 =
          updateParticle (1 / 10) ?p ((sample_data ''dissolving'' 4)\<lparr> transformationPhase := 3 / 100 \<rparr>) (1 / 10)"
    unfolding updateBeing_particles ud by (simp add: sample_being_def)
  then show ?thesis
    by (simp add: sample_update_being updateParticle_opacity t) (simp add: sample_particle_def)
qed

text \<open>
  C6.  The claim: \<^verbatim>\<open>update(0)\<close> changes no position, velocity, opacity, state, timer or
  clock, and \<^verbatim>\<open>update(dt)\<close> is safe on empty collections.  The code's integration does not
  read \<^verbatim>\<open>deltaTime\<close>: \<^verbatim>\<open>updateParticle\<close> and the ambient update advance every particle by
  one frame step whatever \<open>dt\<close> is, so \<^verbatim>\<open>update(0)\<close> moves particles (the counterexample: a
  particle at its target with velocity \<open>(1, 0, 0)\<close> is at \<open>x = 0.95\<close> afterwards).  What
  holds for \<^verbatim>\<open>update(0)\<close>: the clock and every being's transformation phase are unchanged,
  the collections keep their sizes, a being's timer is unchanged or reset to 0 by a
  transition (a fresh jitter is drawn), and its particles are the old ones after one
  integration and containment step at the unchanged clock.  And for every \<open>dt\<close>, on an
  engine without beings and ambient particles \<^verbatim>\<open>update(dt)\<close> only advances the clock.
\<close>

theorem C6_update_zero:
  "e_time (fst (update e 0 g)) = e_time e \<and>
   length (e_beings (fst (update e 0 g))) = length (e_beings e) \<and>
   length (e_ambientParticles (fst (update e 0 g))) = length (e_ambientParticles e) \<and>
   (\<forall>i < length (e_beings e).
      transformationPhase (userData (e_beings (fst (update e 0 g)) ! i))
        = transformationPhase (userData (e_beings e ! i)) \<and>
      (stateTimer (userData (e_beings (fst (update e 0 g)) ! i)) = stateTimer (userData (e_beings e ! i)) \<or>
       stateTimer (userData (e_beings (fst (update e 0 g)) ! i)) = 0) \<and>
      particles (e_beings (fst (update e 0 g)) ! i)
        = map (\<lambda>p. containment (integrate (e_time e) p (userData (e_beings (fst (update e 0 g)) ! i)))
                     (userData (e_beings (fst (update e 0 g)) ! i)))
            (particles (e_beings e ! i))) \<and>
   (e_beings e = [] \<and> e_ambientParticles e = [] \<longrightarrow>
      update e dt g = (e\<lparr> e_time := e_time e + dt \<rparr>, g))"
proof -
  have "transformationPhase (userData (e_beings (fst (update e 0 g)) ! i))
          = transformationPhase (userData (e_beings e ! i)) \<and>
        (stateTimer (userData (e_beings (fst (update e 0 g)) ! i)) = stateTimer (userData (e_beings e ! i)) \<or>
         stateTimer (userData (e_beings (fst (update e 0 g)) ! i)) = 0) \<and>
        particles (e_beings (fst (update e 0 g)) ! i)
          = map (\<lambda>p. containment (integrate (e_time e) p (userData (e_beings (fst (update e 0 g)) ! i)))
                       (userData (e_beings (fst (update e 0 g)) ! i)))
              (particles (e_beings e ! i))"
    if "i < length (e_beings e)" for i
  proof -
    have n: "e_beings (fst (update e 0 g)) ! i =
               fst (updateBeing (e_time e) (e_beings e ! i) 0 (\<lambda>n. g (n + i)))"
      using that by (simp add: update_fields update_beings_nth)
    show ?thesis
      unfolding n
      using advance_state_zero [of "userData (e_beings e ! i)" "g i"]
            updateBeing_particles [of "e_time e" "e_beings e ! i" 0 "\<lambda>n. g (n + i)"]
      by (simp add: updateBeing_userData updateParticle_def)
  qed
  then show ?thesis
    by (simp add: update_fields update_beings_length updateAmbientParticles_length update_empty)
qed

text \<open>
  The theorem at an engine with one being (Forming, timer 1, one particle), and at the
  empty engine with a frame of 0.5 s.
\<close>

theorem C6_update_zero_witness:
  "transformationPhase (userData (e_beings (fst (update
       (sample_engine [sample_being ''forming'' 1 [sample_particle (Vector3 0 3 0) (Vector3 1 0 0) (7 / 10)]] [])
       0 (\<lambda>n. 0))) ! 0)) = 0 \<and>
   stateTimer (userData (e_beings (fst (update
       (sample_engine [sample_being ''forming'' 1 [sample_particle (Vector3 0 3 0) (Vector3 1 0 0) (7 / 10)]] [])
       0 (\<lambda>n. 0))) ! 0)) = 1 \<and>
   length (particles (e_beings (fst (update
       (sample_engine [sample_being ''forming'' 1 [sample_particle (Vector3 0 3 0) (Vector3 1 0 0) (7 / 10)]] [])
       0 (\<lambda>n. 0))) ! 0)) = 1 \<and>
   e_beings (sample_engine [] []) = [] \<and> e_ambientParticles (sample_engine [] []) = [] \<and>
   update (sample_engine [] []) (1 / 2) (\<lambda>n. 0) = ((sample_engine [] [])\<lparr> e_time := 1 / 2 \<rparr>, \<lambda>n. 0)"
proof -
  let ?b = "sample_being ''forming'' 1 [sample_particle (Vector3 0 3 0) (Vector3 1 0 0) (7 / 10)]"
  let ?e = "sample_engine [?b] []"
  let ?b' = "e_beings (fst (update ?e 0 (\<lambda>n. 0))) ! 0"
  have l: "0 < length (e_beings ?e)" "e_beings ?e ! 0 = ?b" by (simp_all add: sample_engine_def)
  have f: "transformationPhase (userData ?b') = transformationPhase (userData ?b)"
          "stateTimer (userData ?b') = stateTimer (userData ?b) \<or> stateTimer (userData ?b') = 0"
          "particles ?b' = map (\<lambda>p. containment (integrate (e_time ?e) p (userData ?b')) (userData ?b'))
                             (particles ?b)"
    using C6_update_zero [of ?e "\<lambda>n. 0"] l by auto
  have s: "stateTimer (userData ?b') = 1"
    by (simp add: sample_update_being updateBeing_userData advance_state_def Let_def sample_being_def
          sample_data_def default_options_def timing_of_def)
  have t: "transformationPhase (userData ?b') = 0"
    using f(1) by (simp add: sample_being_def sample_data_def)
  have n: "length (particles ?b') = 1" using f(3) by (simp add: sample_being_def)
  have e: "e_beings (sample_engine [] []) = []" "e_ambientParticles (sample_engine [] []) = []"
    by (simp_all add: sample_engine_def)
  have "update (sample_engine [] []) (1 / 2) (\<lambda>n. 0)
          = ((sample_engine [] [])\<lparr> e_time := e_time (sample_engine [] []) + 1 / 2 \<rparr>, \<lambda>n. 0)"
    using C6_update_zero [of "sample_engine [] []" "\<lambda>n. 0" "1 / 2"] e by blast
  then have "update (sample_engine [] []) (1 / 2) (\<lambda>n. 0) = ((sample_engine [] [])\<lparr> e_time := 1 / 2 \<rparr>, \<lambda>n. 0)"
    by (simp add: sample_engine_def)
  then show ?thesis using s t n e by blast
qed

text \<open>\<^verbatim>\<open>update(0)\<close> moves a particle that has a velocity: from \<open>x = 0\<close> to \<open>x = 0.95\<close>.\<close>

theorem C6_update_zero_counterexample:
  "p_position (sample_particle (Vector3 0 3 0) (Vector3 1 0 0) (7 / 10)) = Vector3 0 3 0 \<and>
   vx (p_position (particles (e_beings (fst (update
       (sample_engine [sample_being ''forming'' 1 [sample_particle (Vector3 0 3 0) (Vector3 1 0 0) (7 / 10)]] [])
       0 (\<lambda>n. 0))) ! 0) ! 0)) = 19 / 20"
proof -
  let ?p = "sample_particle (Vector3 0 3 0) (Vector3 1 0 0) (7 / 10)"
  let ?b = "sample_being ''forming'' 1 [?p]"
  have ud: "userData (fst (updateBeing 0 ?b 0 (\<lambda>n. 0))) = sample_data ''forming'' 1"
    by (simp add: updateBeing_userData sample_being_def sample_data_def advance_state_def Let_def
          default_options_def timing_of_def)
  have p': "particles (fst (updateBeing 0 ?b 0 (\<lambda>n. 0))) ! 0 =
              containment (integrate 0 ?p (sample_data ''forming'' 1)) (sample_data ''forming'' 1)"
    unfolding updateBeing_particles ud by (simp add: sample_being_def updateParticle_def)
  have i: "vx (p_position (integrate 0 ?p (sample_data ''forming'' 1))) = 19 / 20"
    by (simp add: integrate_def Let_def particle_target_def sample_data_def sample_particle_def
          default_options_def sub_v_def add_v_def multiplyScalar_def length_v_def)
  show ?thesis
    by (simp add: sample_update_being p' containment_fields i) (simp add: sample_particle_def)
qed

text \<open>
  C7.  The claim: once a particle is farther than the maximal radius from its being's
  anchor, every following \<^verbatim>\<open>update\<close> strictly decreases the distance until it is back
  under the radius.  The code has a pull of fixed size 0.01 on the velocity and no bound
  on the position: a particle beyond the radius that still moves outwards moves farther
  out (the counterexample: at distance \<open>sqrt 909\<close>, about 30.15, with velocity
  \<open>(1, 0, 0)\<close>, the next distance is at least 30.76).  What holds: the last block of
  \<^verbatim>\<open>updateParticle\<close> never moves the particle; if the position after the move is farther
  than 25 from the anchor, it adds to the velocity a vector of length 0.01 that is a
  positive multiple of \<open>anchor - position\<close>; otherwise it leaves the velocity as it is.
\<close>

theorem C7_containment_impulse:
  "p_position (updateParticle time p bd dt) = p_position (integrate time p bd) \<and>
   (if distanceTo (p_position (integrate time p bd)) (basePosition bd) > maxDistance
    then p_velocity (updateParticle time p bd dt) =
           add_v (p_velocity (integrate time p bd))
             (multiplyScalar (normalize_v (sub_v (basePosition bd) (p_position (integrate time p bd)))) (1 / 100)) \<and>
         length_v (multiplyScalar (normalize_v (sub_v (basePosition bd) (p_position (integrate time p bd)))) (1 / 100))
           = 1 / 100 \<and>
         multiplyScalar (normalize_v (sub_v (basePosition bd) (p_position (integrate time p bd)))) (1 / 100)
           = multiplyScalar (sub_v (basePosition bd) (p_position (integrate time p bd)))
               (1 / (100 * distanceTo (p_position (integrate time p bd)) (basePosition bd)))
    else p_velocity (updateParticle time p bd dt) = p_velocity (integrate time p bd))"
proof (cases "distanceTo (p_position (integrate time p bd)) (basePosition bd) > maxDistance")
  case True
  let ?q = "integrate time p bd"
  let ?d = "sub_v (basePosition bd) (p_position ?q)"
  have l: "length_v ?d = distanceTo (p_position ?q) (basePosition bd)"
    by (simp add: distanceTo_def length_v_sub_commute)
  then have pos: "0 < length_v ?d" using True by (simp add: maxDistance_def)
  have n: "length_v (multiplyScalar (normalize_v ?d) (1 / 100)) = 1 / 100"
    using pos by (simp add: length_v_scale length_v_normalize)
  have m: "multiplyScalar (normalize_v ?d) (1 / 100)
             = multiplyScalar ?d (1 / (100 * distanceTo (p_position ?q) (basePosition bd)))"
    using pos by (simp add: normalize_v_def multiplyScalar_def l)
  show ?thesis
    using True n m by (simp add: updateParticle_def containment_def Let_def)
next
  case False
  then show ?thesis by (simp add: updateParticle_def containment_def Let_def)
qed

text \<open>A particle at \<open>(30, 3, 0)\<close> with velocity \<open>(1, 0, 0)\<close>, anchor at the origin: the pull applies.\<close>

theorem C7_containment_impulse_witness:
  "maxDistance < distanceTo (p_position (integrate 0 (sample_particle (Vector3 30 3 0) (Vector3 1 0 0) (7 / 10))
                                           (sample_data ''forming'' 0)))
                   (basePosition (sample_data ''forming'' 0)) \<and>
   p_velocity (updateParticle 0 (sample_particle (Vector3 30 3 0) (Vector3 1 0 0) (7 / 10))
                 (sample_data ''forming'' 0) 0) =
     add_v (p_velocity (integrate 0 (sample_particle (Vector3 30 3 0) (Vector3 1 0 0) (7 / 10))
                          (sample_data ''forming'' 0)))
       (multiplyScalar
          (normalize_v (sub_v (basePosition (sample_data ''forming'' 0))
             (p_position (integrate 0 (sample_particle (Vector3 30 3 0) (Vector3 1 0 0) (7 / 10))
                            (sample_data ''forming'' 0)))))
          (1 / 100)) \<and>
   length_v (multiplyScalar
          (normalize_v (sub_v (basePosition (sample_data ''forming'' 0))
             (p_position (integrate 0 (sample_particle (Vector3 30 3 0) (Vector3 1 0 0) (7 / 10))
                            (sample_data ''forming'' 0)))))
          (1 / 100)) = 1 / 100"
proof -
  let ?p = "sample_particle (Vector3 30 3 0) (Vector3 1 0 0) (7 / 10)"
  let ?bd = "sample_data ''forming'' 0"
  have "\<bar>vx (p_position (integrate 0 ?p ?bd)) - vx (basePosition ?bd)\<bar>
          \<le> distanceTo (p_position (integrate 0 ?p ?bd)) (basePosition ?bd)"
    by (rule distance_ge_x)
  moreover have "vx (basePosition ?bd) = 0" by (simp add: sample_data_def)
  ultimately have far: "maxDistance < distanceTo (p_position (integrate 0 ?p ?bd)) (basePosition ?bd)"
    by (simp add: outward_integrate maxDistance_def)
  have "if distanceTo (p_position (integrate 0 ?p ?bd)) (basePosition ?bd) > maxDistance
        then p_velocity (updateParticle 0 ?p ?bd 0) =
               add_v (p_velocity (integrate 0 ?p ?bd))
                 (multiplyScalar (normalize_v (sub_v (basePosition ?bd) (p_position (integrate 0 ?p ?bd)))) (1 / 100)) \<and>
             length_v (multiplyScalar (normalize_v (sub_v (basePosition ?bd) (p_position (integrate 0 ?p ?bd)))) (1 / 100))
               = 1 / 100 \<and>
             multiplyScalar (normalize_v (sub_v (basePosition ?bd) (p_position (integrate 0 ?p ?bd)))) (1 / 100)
               = multiplyScalar (sub_v (basePosition ?bd) (p_position (integrate 0 ?p ?bd)))
                   (1 / (100 * distanceTo (p_position (integrate 0 ?p ?bd)) (basePosition ?bd)))
        else p_velocity (updateParticle 0 ?p ?bd 0) = p_velocity (integrate 0 ?p ?bd)"
    using C7_containment_impulse [of 0 ?p ?bd 0] by (rule conjunct2)
  then have "p_velocity (updateParticle 0 ?p ?bd 0) =
               add_v (p_velocity (integrate 0 ?p ?bd))
                 (multiplyScalar (normalize_v (sub_v (basePosition ?bd) (p_position (integrate 0 ?p ?bd)))) (1 / 100)) \<and>
             length_v (multiplyScalar (normalize_v (sub_v (basePosition ?bd) (p_position (integrate 0 ?p ?bd)))) (1 / 100))
               = 1 / 100 \<and>
             multiplyScalar (normalize_v (sub_v (basePosition ?bd) (p_position (integrate 0 ?p ?bd)))) (1 / 100)
               = multiplyScalar (sub_v (basePosition ?bd) (p_position (integrate 0 ?p ?bd)))
                   (1 / (100 * distanceTo (p_position (integrate 0 ?p ?bd)) (basePosition ?bd)))"
    unfolding if_P [OF far] .
  with far show ?thesis by blast
qed

text \<open>
  The same particle, in Forming with its target at \<open>(0, 3, 0)\<close>: attraction \<open>0.04 * 5\<close>
  towards the target and damping leave the velocity \<open>0.76\<close> in \<open>x\<close>, and the distance from
  the anchor grows although it is beyond the radius.
\<close>

theorem C7_distance_grows_counterexample:
  "maxDistance < distanceTo (p_position (sample_particle (Vector3 30 3 0) (Vector3 1 0 0) (7 / 10)))
                   (basePosition (sample_data ''forming'' 0)) \<and>
   distanceTo (p_position (sample_particle (Vector3 30 3 0) (Vector3 1 0 0) (7 / 10)))
     (basePosition (sample_data ''forming'' 0))
   < distanceTo (p_position (updateParticle 0 (sample_particle (Vector3 30 3 0) (Vector3 1 0 0) (7 / 10))
                               (sample_data ''forming'' 0) (16 / 1000)))
       (basePosition (sample_data ''forming'' 0))"
proof -
  let ?p = "sample_particle (Vector3 30 3 0) (Vector3 1 0 0) (7 / 10)"
  let ?bd = "sample_data ''forming'' 0"
  have before: "distanceTo (p_position ?p) (basePosition ?bd) = sqrt 909"
    by (simp add: distanceTo_def length_v_def sub_v_def sample_particle_def sample_data_def)
  have lo: "25 < sqrt 909" by (rule real_less_rsqrt) simp
  have hi: "sqrt 909 < 769 / 25" by (rule real_less_lsqrt) (simp_all add: power2_eq_square)
  have "\<bar>vx (p_position (updateParticle 0 ?p ?bd (16 / 1000))) - vx (basePosition ?bd)\<bar>
          \<le> distanceTo (p_position (updateParticle 0 ?p ?bd (16 / 1000))) (basePosition ?bd)"
    by (rule distance_ge_x)
  moreover have "vx (basePosition ?bd) = 0" by (simp add: sample_data_def)
  ultimately have after: "769 / 25 \<le> distanceTo (p_position (updateParticle 0 ?p ?bd (16 / 1000))) (basePosition ?bd)"
    by (simp add: updateParticle_def containment_fields outward_integrate)
  show ?thesis
    unfolding before using lo hi after by (simp add: maxDistance_def)
qed

text \<open>
  C8.  The claim: the force call has one influence point; a particle within a fixed radius
  of it gets \<open>normalize (influencePoint - position) * unit * strength\<close> added to its velocity,
  a particle outside is untouched.  \<^verbatim>\<open>applyMouseInfluence(mouseX, mouseY, strength)\<close> uses two
  points: the distance is measured to \<open>(20 mouseX, 20 mouseY + 5, 0)\<close>, the force points to
  \<open>(2 mouseX, 2 mouseY, 0)\<close>.  So with the pointer at \<open>(0, 0)\<close> a particle 12 away from the
  point it is pulled to is pulled all the same, and a particle within 3 of the point the
  radius is measured from is pushed away from that point (the counterexample).  What holds:
  a particle at a distance less than 10 from \<open>(20 mouseX, 20 mouseY + 5, 0)\<close> has
  \<open>normalize ((2 mouseX, 2 mouseY, 0) - position) * 0.01 * strength\<close> added to its velocity
  and nothing else changed; every other particle, every being's data and the rest of the
  engine are unchanged.
\<close>

theorem C8_mouse_influence:
  "e_scene (applyMouseInfluence e mx my s) = e_scene e \<and>
   e_ambientParticles (applyMouseInfluence e mx my s) = e_ambientParticles e \<and>
   e_time (applyMouseInfluence e mx my s) = e_time e \<and>
   e_options (applyMouseInfluence e mx my s) = e_options e \<and>
   length (e_beings (applyMouseInfluence e mx my s)) = length (e_beings e) \<and>
   (\<forall>i < length (e_beings e).
      userData (e_beings (applyMouseInfluence e mx my s) ! i) = userData (e_beings e ! i) \<and>
      length (particles (e_beings (applyMouseInfluence e mx my s) ! i)) = length (particles (e_beings e ! i)) \<and>
      (\<forall>j < length (particles (e_beings e ! i)).
         particles (e_beings (applyMouseInfluence e mx my s) ! i) ! j =
           (if distanceTo (p_position (particles (e_beings e ! i) ! j)) (Vector3 (20 * mx) (20 * my + 5) 0) < 10
            then (particles (e_beings e ! i) ! j)
                   \<lparr> p_velocity := add_v (p_velocity (particles (e_beings e ! i) ! j))
                        (multiplyScalar
                           (normalize_v (sub_v (Vector3 (2 * mx) (2 * my) 0)
                                               (p_position (particles (e_beings e ! i) ! j))))
                           (s / 100)) \<rparr>
            else particles (e_beings e ! i) ! j)))"
  by (simp add: applyMouseInfluence_def Let_def influence_particle_cases)

text \<open>The pointer at \<open>(0, 0)\<close>, strength 1: the second particle is pulled, the third is not.\<close>

theorem C8_mouse_influence_witness:
  "p_velocity (particles (e_beings (applyMouseInfluence mouse_engine 0 0 1) ! 0) ! 1) = Vector3 0 (- (1 / 100)) 0 \<and>
   particles (e_beings (applyMouseInfluence mouse_engine 0 0 1) ! 0) ! 2
     = sample_particle (Vector3 0 30 0) (Vector3 0 0 0) (7 / 10)"
proof -
  have i: "0 < length (e_beings mouse_engine)" by (simp add: mouse_engine_particles)
  have j: "1 < length (particles (e_beings mouse_engine ! 0))" "2 < length (particles (e_beings mouse_engine ! 0))"
    by (simp_all add: mouse_engine_particles)
  have all: "\<forall>j < length (particles (e_beings mouse_engine ! 0)).
         particles (e_beings (applyMouseInfluence mouse_engine 0 0 1) ! 0) ! j =
           (if distanceTo (p_position (particles (e_beings mouse_engine ! 0) ! j)) (Vector3 (20 * 0) (20 * 0 + 5) 0) < 10
            then (particles (e_beings mouse_engine ! 0) ! j)
                   \<lparr> p_velocity := add_v (p_velocity (particles (e_beings mouse_engine ! 0) ! j))
                        (multiplyScalar
                           (normalize_v (sub_v (Vector3 (2 * 0) (2 * 0) 0)
                                               (p_position (particles (e_beings mouse_engine ! 0) ! j))))
                           (1 / 100)) \<rparr>
            else particles (e_beings mouse_engine ! 0) ! j)"
    using C8_mouse_influence [of mouse_engine 0 0 1] i by blast
  have p1: "particles (e_beings (applyMouseInfluence mouse_engine 0 0 1) ! 0) ! 1 =
              (sample_particle (Vector3 0 2 0) (Vector3 0 0 0) (7 / 10))
                \<lparr> p_velocity := add_v (Vector3 0 0 0) (Vector3 0 (- (1 / 100)) 0) \<rparr>"
    using all j(1) by (simp add: mouse_engine_particles mouse_distances mouse_pulls) (simp add: sample_particle_def)
  have p2: "particles (e_beings (applyMouseInfluence mouse_engine 0 0 1) ! 0) ! 2 =
              sample_particle (Vector3 0 30 0) (Vector3 0 0 0) (7 / 10)"
    using all j(2) by (simp add: mouse_engine_particles mouse_distances)
  have v1: "p_velocity (particles (e_beings (applyMouseInfluence mouse_engine 0 0 1) ! 0) ! 1)
              = Vector3 0 (- (1 / 100)) 0"
    unfolding p1 by (simp add: add_v_def)
  show ?thesis using v1 p2 by blast
qed

text \<open>
  The first particle is 12 away from \<open>(0, 0, 0)\<close>, the point the force points to, and gets
  the force.  The second is 3 away from \<open>(0, 5, 0)\<close>, the point the distance is measured
  to, and gets \<open>(0, -0.01, 0)\<close>, where the pull to that point would be \<open>(0, 0.01, 0)\<close>.
\<close>

theorem C8_two_points_counterexample:
  "distanceTo (p_position (particles (e_beings mouse_engine ! 0) ! 0)) (Vector3 0 0 0) = 12 \<and>
   p_velocity (particles (e_beings mouse_engine ! 0) ! 0) = Vector3 0 0 0 \<and>
   p_velocity (particles (e_beings (applyMouseInfluence mouse_engine 0 0 1) ! 0) ! 0) = Vector3 0 (- (1 / 100)) 0 \<and>
   distanceTo (p_position (particles (e_beings mouse_engine ! 0) ! 1)) (Vector3 0 5 0) = 3 \<and>
   p_velocity (particles (e_beings mouse_engine ! 0) ! 1) = Vector3 0 0 0 \<and>
   p_velocity (particles (e_beings (applyMouseInfluence mouse_engine 0 0 1) ! 0) ! 1) = Vector3 0 (- (1 / 100)) 0 \<and>
   multiplyScalar (normalize_v (sub_v (Vector3 0 5 0) (p_position (particles (e_beings mouse_engine ! 0) ! 1)))) (1 / 100)
     = Vector3 0 (1 / 100) 0"
proof -
  have a: "particles (e_beings (applyMouseInfluence mouse_engine 0 0 1) ! 0) =
             map (influence_particle (Vector3 0 0 0) 1) (particles (e_beings mouse_engine ! 0))"
    by (simp add: applyMouseInfluence_def Let_def mouse_engine_def sample_engine_def)
  have v: "p_velocity (sample_particle q (Vector3 0 0 0) op) = Vector3 0 0 0" for q op
    by (simp add: sample_particle_def)
  show ?thesis
    unfolding a mouse_engine_particles
    by (simp add: mouse_distances mouse_pulls influence_particle_def Let_def v add_v_def)
qed

text \<open>
  C9.  The claim: \<^verbatim>\<open>dispose\<close> twice is \<^verbatim>\<open>dispose\<close> once (empty collections, every source
  shown again), and \<^verbatim>\<open>update\<close> or the force call after \<^verbatim>\<open>dispose\<close> is a safe no-op.  All of
  it holds but the last for \<^verbatim>\<open>update\<close>: the engine has no disposed flag, and
  \<^verbatim>\<open>update(dt)\<close> after \<^verbatim>\<open>dispose\<close> still adds \<open>dt\<close> to the clock (the counterexample).
  What holds: the second \<^verbatim>\<open>dispose\<close> changes neither engine nor heap; after \<^verbatim>\<open>dispose\<close>
  both collections are empty, every being's source mesh is visible, and the scene has lost
  exactly the handles of the engine's particles; \<^verbatim>\<open>update(dt)\<close> then changes only the
  clock, and \<^verbatim>\<open>applyMouseInfluence\<close> changes nothing.
\<close>

theorem C9_dispose_idempotent:
  "dispose (fst (dispose e h)) (snd (dispose e h)) = dispose e h \<and>
   e_beings (fst (dispose e h)) = [] \<and>
   e_ambientParticles (fst (dispose e h)) = [] \<and>
   (\<forall>b \<in> set (e_beings e). \<forall>r. originalMesh (userData b) = Some r \<longrightarrow> m_visible (snd (dispose e h) r)) \<and>
   set (e_scene (fst (dispose e h))) =
     set (e_scene e) - (\<Union>b \<in> set (e_beings e). handle ` set (particles b))
       - (\<lambda>a. AmbientParticle (a_id a)) ` set (e_ambientParticles e) \<and>
   update (fst (dispose e h)) dt g = ((fst (dispose e h))\<lparr> e_time := e_time e + dt \<rparr>, g) \<and>
   applyMouseInfluence (fst (dispose e h)) mx my s = fst (dispose e h)"
proof -
  have v: "\<forall>b \<in> set (e_beings e). \<forall>r. originalMesh (userData b) = Some r \<longrightarrow> m_visible (snd (dispose e h) r)"
    by (simp add: dispose_fields fold_dispose_visible)
  have sc: "set (e_scene (fst (dispose e h))) =
     set (e_scene e) - (\<Union>b \<in> set (e_beings e). handle ` set (particles b))
       - (\<lambda>a. AmbientParticle (a_id a)) ` set (e_ambientParticles e)"
    by (simp add: dispose_fields fold_scene_remove fold_dispose_scene)
  have u: "update (fst (dispose e h)) dt g = ((fst (dispose e h))\<lparr> e_time := e_time e + dt \<rparr>, g)"
    using update_empty [of "fst (dispose e h)" dt g] by (simp add: dispose_fields)
  have m: "applyMouseInfluence (fst (dispose e h)) mx my s = fst (dispose e h)"
    by (rule applyMouseInfluence_empty) (simp add: dispose_fields)
  show ?thesis
    using dispose_twice [of e h] dispose_fields(1,2) [of e h] v sc u m by blast
qed

text \<open>The engine made from mesh 7: the mesh is hidden before and visible after.\<close>

theorem C9_dispose_idempotent_witness:
  "originalMesh (userData (e_beings disposable_engine ! 0)) = Some 7 \<and>
   \<not> m_visible (hidden_heap 7) \<and>
   m_visible (snd (dispose disposable_engine hidden_heap) 7) \<and>
   e_beings (fst (dispose disposable_engine hidden_heap)) = [] \<and>
   e_ambientParticles (fst (dispose disposable_engine hidden_heap)) = [] \<and>
   dispose (fst (dispose disposable_engine hidden_heap)) (snd (dispose disposable_engine hidden_heap))
     = dispose disposable_engine hidden_heap \<and>
   applyMouseInfluence (fst (dispose disposable_engine hidden_heap)) 0 0 1
     = fst (dispose disposable_engine hidden_heap)"
proof -
  have b: "e_beings disposable_engine ! 0 \<in> set (e_beings disposable_engine)"
    by (simp add: disposable_engine_def)
  have o: "originalMesh (userData (e_beings disposable_engine ! 0)) = Some 7"
    by (simp add: disposable_engine_def)
  have h: "\<not> m_visible (hidden_heap 7)" by (simp add: hidden_heap_def)
  show ?thesis
    using C9_dispose_idempotent [of disposable_engine hidden_heap 0 "\<lambda>n. 0" 0 0 1] b o h by blast
qed

text \<open>The clock is 5 after \<^verbatim>\<open>dispose\<close> and 6 after a following \<^verbatim>\<open>update(1)\<close>.\<close>

theorem C9_clock_counterexample:
  "e_time (fst (dispose disposable_engine hidden_heap)) = 5 \<and>
   e_time (fst (update (fst (dispose disposable_engine hidden_heap)) 1 (\<lambda>n. 0))) = 6"
  by (simp add: update_fields dispose_fields) (simp add: disposable_engine_def)

text \<open>
  C10.  An ambient particle's frame is the move (velocity and position), the wrap and the
  pulse.  The wrap sets a coordinate beyond the box (\<open>x\<close> and \<open>z\<close> in \<open>[-30, 30]\<close>, \<open>y\<close> in
  \<open>[0, 20]\<close>) to the opposite end of its axis, leaves a coordinate inside the box as it is,
  and does not touch the velocity: position and velocity after the frame are the wrapped
  position and the velocity of the move.
\<close>

theorem C10_ambient_wrap:
  "a_position (fst (updateAmbientParticle time a g)) = a_position (ambient_wrap (ambient_move a)) \<and>
   a_velocity (fst (updateAmbientParticle time a g)) = a_velocity (ambient_move a) \<and>
   a_velocity (ambient_wrap b) = a_velocity b \<and>
   (vx (a_position b) > 30 \<longrightarrow> vx (a_position (ambient_wrap b)) = - 30) \<and>
   (vx (a_position b) < - 30 \<longrightarrow> vx (a_position (ambient_wrap b)) = 30) \<and>
   (- 30 \<le> vx (a_position b) \<and> vx (a_position b) \<le> 30 \<longrightarrow>
      vx (a_position (ambient_wrap b)) = vx (a_position b)) \<and>
   (vz (a_position b) > 30 \<longrightarrow> vz (a_position (ambient_wrap b)) = - 30) \<and>
   (vz (a_position b) < - 30 \<longrightarrow> vz (a_position (ambient_wrap b)) = 30) \<and>
   (- 30 \<le> vz (a_position b) \<and> vz (a_position b) \<le> 30 \<longrightarrow>
      vz (a_position (ambient_wrap b)) = vz (a_position b)) \<and>
   (vy (a_position b) > 20 \<longrightarrow> vy (a_position (ambient_wrap b)) = 0) \<and>
   (vy (a_position b) < 0 \<longrightarrow> vy (a_position (ambient_wrap b)) = 20) \<and>
   (0 \<le> vy (a_position b) \<and> vy (a_position b) \<le> 20 \<longrightarrow>
      vy (a_position (ambient_wrap b)) = vy (a_position b))"
  by (simp add: updateAmbientParticle_fields ambient_wrap_fields wrap_position_def Let_def)

text \<open>
  A particle leaving the box at \<open>+x\<close>, \<open>+y\<close> and \<open>-z\<close> in one frame, one beyond the box at
  the three other sides, and one inside.
\<close>

theorem C10_ambient_wrap_witness:
  "a_position (ambient_move drifting_ambient) = Vector3 (15029 / 500) (501 / 25) (- (3001 / 100)) \<and>
   a_position (fst (updateAmbientParticle 0 drifting_ambient (\<lambda>n. 0))) = Vector3 (- 30) 0 30 \<and>
   a_velocity (fst (updateAmbientParticle 0 drifting_ambient (\<lambda>n. 0)))
     = a_velocity (ambient_move drifting_ambient) \<and>
   a_position (ambient_wrap (sample_ambient (Vector3 (- 31) (- 1) 31) (Vector3 0 0 0))) = Vector3 30 20 (- 30) \<and>
   a_position (ambient_wrap (sample_ambient (Vector3 3 4 5) (Vector3 0 0 0))) = Vector3 3 4 5"
proof -
  let ?a = "drifting_ambient"
  let ?m = "ambient_move ?a"
  let ?n = "sample_ambient (Vector3 (- 31) (- 1) 31) (Vector3 0 0 0)"
  let ?c = "sample_ambient (Vector3 3 4 5) (Vector3 0 0 0)"
  have mv: "a_position ?m = Vector3 (15029 / 500) (501 / 25) (- (3001 / 100))"
    by (simp add: drifting_ambient_def ambient_move_def Let_def sample_ambient_def add_v_def)
  have pn: "a_position ?n = Vector3 (- 31) (- 1) 31" and pc: "a_position ?c = Vector3 3 4 5"
    by (simp_all add: sample_ambient_def)
  have w1: "a_position (ambient_wrap ?m) = Vector3 (- 30) 0 30"
    using C10_ambient_wrap [of 0 ?a "\<lambda>n. 0" ?m]
    by (cases "a_position (ambient_wrap ?m)") (simp add: mv)
  have w2: "a_position (ambient_wrap ?n) = Vector3 30 20 (- 30)"
    using C10_ambient_wrap [of 0 ?a "\<lambda>n. 0" ?n]
    by (cases "a_position (ambient_wrap ?n)") (simp add: pn)
  have w3: "a_position (ambient_wrap ?c) = Vector3 3 4 5"
    using C10_ambient_wrap [of 0 ?a "\<lambda>n. 0" ?c]
    by (cases "a_position (ambient_wrap ?c)") (simp add: pc)
  have u: "a_position (fst (updateAmbientParticle 0 ?a (\<lambda>n. 0))) = a_position (ambient_wrap ?m)"
          "a_velocity (fst (updateAmbientParticle 0 ?a (\<lambda>n. 0))) = a_velocity ?m"
    using C10_ambient_wrap [of 0 ?a "\<lambda>n. 0" ?a] by blast+
  show ?thesis
    using mv w1 w2 w3 u by simp
qed

end
